theory Spec2Isabelle
  imports Main "HOL-Library.Sublist"
begin

section \<open>JavaScript values and built-ins used by the Worker node\<close>

text \<open>
  The Worker node (\<^verbatim>\<open>Worker_MultiAgents.init\<close>, \<^verbatim>\<open>createAgent\<close>, \<^verbatim>\<open>agentNode\<close>) is
  embedded as pure functions. A JavaScript string is a \<^typ>\<open>string\<close>: a list of code units,
  here the code units below 256 (Basic Latin and Latin-1 Supplement). A thrown exception
  is a value of type \<open>error\<close> on the left of a sum; \<^verbatim>\<open>new Error(msg)\<close> has the kind
  \<open>''Error''\<close>.
\<close>

datatype error = JSError (kind: string) (message: string)

definition new_Error :: "string \<Rightarrow> error" where
  "new_Error msg = JSError ''Error'' msg"

text \<open>
  \<^verbatim>\<open>"" + exception\<close> calls \<^verbatim>\<open>Error.prototype.toString\<close>: the name, the message, or
  both separated by a colon and a space.
\<close>

definition error_toString :: "error \<Rightarrow> string" where
  "error_toString e =
     (if message e = [] then kind e
      else if kind e = [] then message e
      else kind e @ '': '' @ message e)"

subsection \<open>Case mapping, whitespace and trimming\<close>

text \<open>
  \<^verbatim>\<open>String.prototype.toLowerCase\<close> on code units below 256: the capital letters A to Z and
  the capital letters of Latin-1 (0xC0 to 0xDE without the multiplication sign 0xD7) move
  up by 32; every other code unit is unchanged.
\<close>

definition toLowerCase_char :: "char \<Rightarrow> char" where
  "toLowerCase_char c =
     (let n = of_char c :: nat in
      if (65 \<le> n \<and> n \<le> 90) \<or> (192 \<le> n \<and> n \<le> 214) \<or> (216 \<le> n \<and> n \<le> 222)
      then char_of (n + 32) else c)"

definition toLowerCase :: "string \<Rightarrow> string" where
  "toLowerCase s = map toLowerCase_char s"

text \<open>
  The class \<^verbatim>\<open>\s\<close> of a regular expression and the characters \<^verbatim>\<open>trim\<close> removes are
  the same set (white space and line terminators); below 256 these are tab, line feed,
  vertical tab, form feed, carriage return, space and the no-break space.
\<close>

definition isSpace :: "char \<Rightarrow> bool" where
  "isSpace c = (of_char c \<in> {9::nat, 10, 11, 12, 13, 32, 160})"

text \<open>\<^verbatim>\<open>s.replace(/\s/g, '_')\<close>: every white-space code unit becomes an underscore.\<close>

definition replace_whitespace :: "string \<Rightarrow> string" where
  "replace_whitespace s = map (\<lambda>c. if isSpace c then CHR ''_'' else c) s"

definition trim :: "string \<Rightarrow> string" where
  "trim s = rev (dropWhile isSpace (rev (dropWhile isSpace s)))"

text \<open>
  Line 96 of the Worker node:
  \<^verbatim>\<open>const workerName = workerLabel.toLowerCase().replace(/\s/g, '_').trim()\<close>
\<close>

definition normalize_workerName :: "string \<Rightarrow> string" where
  "normalize_workerName workerLabel = trim (replace_whitespace (toLowerCase workerLabel))"

subsection \<open>String.prototype.replaceAll with a string pattern\<close>

text \<open>
  \<^verbatim>\<open>replaceAll\<close> expands the replacement text at every match (the abstract operation
  GetSubstitution of ECMAScript): \<^verbatim>\<open>$$\<close> is a dollar sign, \<^verbatim>\<open>$&\<close> the matched text,
  a dollar sign and a backtick the text before the match, a dollar sign and an apostrophe
  the text after it. A string pattern has no capture groups, so every other dollar sign
  stands for itself.
\<close>

fun GetSubstitution :: "string \<Rightarrow> string \<Rightarrow> string \<Rightarrow> string \<Rightarrow> string" where
  "GetSubstitution matched preceding following [] = []"
| "GetSubstitution matched preceding following [c] = [c]"
| "GetSubstitution matched preceding following (c # d # rest) =
     (if c = CHR ''$'' \<and> d = CHR ''$'' then CHR ''$'' # GetSubstitution matched preceding following rest
      else if c = CHR ''$'' \<and> d = CHR ''&'' then matched @ GetSubstitution matched preceding following rest
      else if c = CHR ''$'' \<and> d = CHR 0x60 then preceding @ GetSubstitution matched preceding following rest
      else if c = CHR ''$'' \<and> d = CHR 0x27 then following @ GetSubstitution matched preceding following rest
      else c # GetSubstitution matched preceding following (d # rest))"

text \<open>
  The matches of a non-empty pattern are found from left to right and do not overlap;
  \<open>preceding\<close> is the part of the original string already passed.
\<close>

function replaceAll_from :: "string \<Rightarrow> string \<Rightarrow> string \<Rightarrow> string \<Rightarrow> string" where
  "replaceAll_from searchValue replaceValue preceding [] = []"
| "replaceAll_from searchValue replaceValue preceding (c # cs) =
     (if searchValue \<noteq> [] \<and> prefix searchValue (c # cs)
      then GetSubstitution searchValue preceding (drop (length searchValue) (c # cs)) replaceValue
           @ replaceAll_from searchValue replaceValue (preceding @ searchValue)
               (drop (length searchValue) (c # cs))
      else c # replaceAll_from searchValue replaceValue (preceding @ [c]) cs)"
  by pat_completeness auto
termination
  by (relation "measure (\<lambda>(searchValue, replaceValue, preceding, s). length s)") auto

text \<open>The empty pattern matches before every code unit and at the end.\<close>

fun replaceAll_empty :: "string \<Rightarrow> string \<Rightarrow> string \<Rightarrow> string" where
  "replaceAll_empty replaceValue preceding [] = GetSubstitution [] preceding [] replaceValue"
| "replaceAll_empty replaceValue preceding (c # cs) =
     GetSubstitution [] preceding (c # cs) replaceValue
     @ c # replaceAll_empty replaceValue (preceding @ [c]) cs"

definition replaceAll :: "string \<Rightarrow> string \<Rightarrow> string \<Rightarrow> string" where
  "replaceAll s searchValue replaceValue =
     (if searchValue = [] then replaceAll_empty replaceValue [] s
      else replaceAll_from searchValue replaceValue [] s)"

text \<open>\<^verbatim>\<open>s.includes(t)\<close>: the text \<open>t\<close> occurs in \<open>s\<close>.\<close>

definition includes_text :: "string \<Rightarrow> string \<Rightarrow> bool" where
  "includes_text s t = sublist t s"

section \<open>Prompt variables\<close>

type_synonym ICommonObject = "string \<rightharpoonup> string"

text \<open>
  Modelled from the spec: \<^verbatim>\<open>getInputVariables\<close> is imported from \<^verbatim>\<open>src/utils\<close>, which
  is not among the sources. The spec (4.1): given a template string containing zero or
  more \<open>{name}\<close> placeholders, extract the ordered set of referenced names. The scan
  keeps the text since the last opening brace; a closing brace ends the name. The names
  come in the order of their first occurrence.
\<close>

fun scan_inputVariables :: "string option \<Rightarrow> string \<Rightarrow> string list" where
  "scan_inputVariables opened [] = []"
| "scan_inputVariables opened (c # cs) =
     (if c = CHR ''{'' then scan_inputVariables (Some []) cs
      else if c = CHR ''}'' then
        (case opened of
           Some name \<Rightarrow> name # scan_inputVariables None cs
         | None \<Rightarrow> scan_inputVariables None cs)
      else scan_inputVariables (map_option (\<lambda>name. name @ [c]) opened) cs)"

definition getInputVariables :: "string \<Rightarrow> string list" where
  "getInputVariables paramValue = rev (remdups (rev (scan_inputVariables None paramValue)))"

text \<open>The template literal \<^verbatim>\<open>`{${inputVariable}}`\<close>.\<close>

definition placeholder :: "string \<Rightarrow> string" where
  "placeholder inputVariable = ''{'' @ inputVariable @ ''}''"

text \<open>
  \<^verbatim>\<open>workerInputVariablesValues[inputVariable]\<close> as \<^verbatim>\<open>replaceAll\<close> reads it: the value of
  the property, and the text \<^verbatim>\<open>undefined\<close> when the object has no such property.
\<close>

definition property_text :: "ICommonObject \<Rightarrow> string \<Rightarrow> string" where
  "property_text obj key = (case obj key of Some v \<Rightarrow> v | None \<Rightarrow> ''undefined'')"

text \<open>
  Lines 116 to 118:
  \<^verbatim>\<open>for (const inputVariable of workerInputVariables) {
      workerPrompt = workerPrompt.replaceAll(`{${inputVariable}}`, workerInputVariablesValues[inputVariable])
  }\<close>
\<close>

fun substitute_inputVariables :: "ICommonObject \<Rightarrow> string list \<Rightarrow> string \<Rightarrow> string" where
  "substitute_inputVariables workerInputVariablesValues [] workerPrompt = workerPrompt"
| "substitute_inputVariables workerInputVariablesValues (inputVariable # rest) workerPrompt =
     substitute_inputVariables workerInputVariablesValues rest
       (replaceAll workerPrompt (placeholder inputVariable)
          (property_text workerInputVariablesValues inputVariable))"

text \<open>
  What the spec (4.1) asks of the substitution, written without \<^verbatim>\<open>replaceAll\<close>: every
  occurrence of the pattern, from left to right, is replaced by the value itself, and
  that for every placeholder in turn.
\<close>

function replace_literally :: "string \<Rightarrow> string \<Rightarrow> string \<Rightarrow> string" where
  "replace_literally pattern v [] = []"
| "replace_literally pattern v (c # cs) =
     (if pattern \<noteq> [] \<and> prefix pattern (c # cs)
      then v @ replace_literally pattern v (drop (length pattern) (c # cs))
      else c # replace_literally pattern v cs)"
  by pat_completeness auto
termination
  by (relation "measure (\<lambda>(pattern, v, s). length s)") auto

fun substitute_literally :: "ICommonObject \<Rightarrow> string list \<Rightarrow> string \<Rightarrow> string" where
  "substitute_literally provided [] template = template"
| "substitute_literally provided (n # rest) template =
     substitute_literally provided rest
       (replace_literally (placeholder n) (property_text provided n) template)"

text \<open>
  Line 112:
  \<^verbatim>\<open>workerInputVariables.every((element) => Object.keys(workerInputVariablesValues).includes(element))\<close>
\<close>

definition every_variable_provided :: "string list \<Rightarrow> ICommonObject \<Rightarrow> bool" where
  "every_variable_provided workerInputVariables workerInputVariablesValues =
     list_all (\<lambda>element. workerInputVariablesValues element \<noteq> None) workerInputVariables"

section \<open>The node's data\<close>

text \<open>
  Objects of LangChain are kept as the data their constructors are given. A chat model
  is known by a name and by whether its \<^verbatim>\<open>bindTools\<close> method is defined.
\<close>

datatype Tool = Tool (tool_name: string)

record BaseChatModel =
  modelName :: string
  bindTools_defined :: bool

text \<open>
  An element of \<^verbatim>\<open>nodeData.inputs.tools\<close> is a tool or an array of tools; lodash's
  \<^verbatim>\<open>flatten\<close> removes one level of nesting and turns \<^verbatim>\<open>undefined\<close> into the empty
  array.
\<close>

datatype ToolInput = OneTool Tool | ToolArray "Tool list"

fun flatten :: "ToolInput list option \<Rightarrow> Tool list" where
  "flatten None = []"
| "flatten (Some array) =
     concat (map (\<lambda>element. case element of OneTool t \<Rightarrow> [t] | ToolArray ts \<Rightarrow> ts) array)"

text \<open>
  The supervisor is an \<^verbatim>\<open>IMultiAgentNode\<close>; \<^verbatim>\<open>init\<close> reads its \<^verbatim>\<open>name\<close>, which may be
  null or undefined (\<open>None\<close>), and its \<^verbatim>\<open>llm\<close>, which the source casts to a chat model.
\<close>

record Supervisor =
  supervisor_name :: "string option"
  supervisor_llm :: BaseChatModel

text \<open>
  \<^verbatim>\<open>promptValues\<close> is a string of JSON or an object already. The values of the object's
  properties are strings, as the spec's data model has them (name to string value).
\<close>

datatype PromptValues = PromptValuesString string | PromptValuesObject ICommonObject

text \<open>
  \<^verbatim>\<open>nodeData.inputs\<close>: the field \<open>inputs_x\<close> is \<^verbatim>\<open>nodeData.inputs.x\<close>. An input the
  source tests for absence is an option (\<open>None\<close> is \<^verbatim>\<open>undefined\<close>); an input the source
  casts and uses has the type of the cast.
\<close>

record INodeData =
  inputs_tools :: "ToolInput list option"
  inputs_workerPrompt :: string
  inputs_workerName :: "string option"
  inputs_supervisor :: Supervisor
  inputs_maxIterations :: "string option"
  inputs_model :: "BaseChatModel option"
  inputs_promptValues :: "PromptValues option"

record AbortSignal =
  aborted :: bool

record AbortController =
  signal :: AbortSignal

record NodeOptions =
  options_signal :: AbortController
  options_sessionId :: "string option"
  options_chatId :: "string option"

record FlowObj =
  flow_sessionId :: "string option"
  flow_chatId :: "string option"
  flow_input :: "string option"

datatype PromptMessage = SystemMessage string | MessagesPlaceholder string

datatype ChatPromptTemplate = ChatPromptTemplate_fromMessages "PromptMessage list"

text \<open>
  \<^verbatim>\<open>ChatPromptTemplate.fromMessages\<close> of LangChain parses the text of every system message
  as an f-string template (\<^verbatim>\<open>parseFString\<close>) and throws what the parser throws. The
  parser reads from left to right: two opening or two closing braces are a literal brace,
  an opening brace starts a variable that runs to the next closing brace
  (\<^verbatim>\<open>Unclosed '{' in template.\<close> when there is none), a closing brace alone is the error
  \<^verbatim>\<open>Single '}' in template.\<close>, and any other text is a literal up to the next brace.
\<close>

datatype ParsedFStringNode = literal_node string | variable_node string

definition push_node ::
  "ParsedFStringNode \<Rightarrow> error + ParsedFStringNode list \<Rightarrow> error + ParsedFStringNode list" where
  "push_node node rest =
     (case rest of Inl thrown \<Rightarrow> Inl thrown | Inr nodes \<Rightarrow> Inr (node # nodes))"

definition is_bracket :: "char \<Rightarrow> bool" where
  "is_bracket c = (c = CHR ''{'' \<or> c = CHR ''}'')"

function parseFString :: "string \<Rightarrow> error + ParsedFStringNode list" where
  "parseFString [] = Inr []"
| "parseFString (c # cs) =
     (if c = CHR ''{'' \<and> cs \<noteq> [] \<and> hd cs = CHR ''{''
      then push_node (literal_node ''{'') (parseFString (tl cs))
      else if c = CHR ''}'' \<and> cs \<noteq> [] \<and> hd cs = CHR ''}''
      then push_node (literal_node ''}'') (parseFString (tl cs))
      else if c = CHR ''{''
      then (if CHR ''}'' \<notin> set cs then Inl (new_Error ''Unclosed '{' in template.'')
            else push_node (variable_node (takeWhile (\<lambda>x. x \<noteq> CHR ''}'') cs))
                   (parseFString (tl (dropWhile (\<lambda>x. x \<noteq> CHR ''}'') cs))))
      else if c = CHR ''}''
      then Inl (new_Error ''Single '}' in template.'')
      else push_node (literal_node (takeWhile (\<lambda>x. \<not> is_bracket x) (c # cs)))
             (parseFString (dropWhile (\<lambda>x. \<not> is_bracket x) (c # cs))))"
  by pat_completeness auto
termination
proof (relation "measure length")
  fix c :: char and cs :: string
  have d: "\<And>P. length (dropWhile P cs) \<le> length cs" by (rule length_dropWhile_le)
  show "(tl (dropWhile (\<lambda>x. x \<noteq> CHR ''}'') cs), c # cs) \<in> measure length"
    using d [of "\<lambda>x. x \<noteq> CHR ''}''"] by simp
  assume "\<not> (c = CHR ''{'' \<and> cs \<noteq> [] \<and> hd cs = CHR ''{'')"
    "\<not> (c = CHR ''}'' \<and> cs \<noteq> [] \<and> hd cs = CHR ''}'')" "c \<noteq> CHR ''{''" "c \<noteq> CHR ''}''"
  then show "(dropWhile (\<lambda>x. \<not> is_bracket x) (c # cs), c # cs) \<in> measure length"
    using d [of "\<lambda>x. \<not> is_bracket x"] by (simp add: is_bracket_def)
qed auto

declare parseFString.simps [simp del]

text \<open>The first error of the system messages, in the order of the messages.\<close>

fun first_template_error :: "PromptMessage list \<Rightarrow> error option" where
  "first_template_error [] = None"
| "first_template_error (SystemMessage template # rest) =
     (case parseFString template of
        Inl thrown \<Rightarrow> Some thrown
      | Inr nodes \<Rightarrow> first_template_error rest)"
| "first_template_error (MessagesPlaceholder variableName # rest) = first_template_error rest"

definition fromMessages :: "PromptMessage list \<Rightarrow> error + ChatPromptTemplate" where
  "fromMessages promptMessages =
     (case first_template_error promptMessages of
        Some thrown \<Rightarrow> Inl thrown
      | None \<Rightarrow> Inr (ChatPromptTemplate_fromMessages promptMessages))"

text \<open>\<^verbatim>\<open>parseFloat(s)\<close> is kept as the text it is given.\<close>

datatype JSNumber = parseFloat string

datatype RunnableStep =
    AssignAgentScratchpad
  | PromptStep ChatPromptTemplate
  | ModelStep BaseChatModel
  | ModelWithTools BaseChatModel "Tool list"
  | ToolCallingAgentOutputParser
  | StringOutputParser

text \<open>
  What \<^verbatim>\<open>createAgent\<close> returns: the executor of \<^verbatim>\<open>AgentExecutor.fromAgentAndTools\<close>
  (the tool loop) or the conversation chain of \<^verbatim>\<open>RunnableSequence.from\<close>.
\<close>

datatype Agent =
    is_AgentExecutor: AgentExecutor
      (executor_agent: "RunnableStep list")
      (executor_tools: "Tool list")
      (executor_sessionId: "string option")
      (executor_chatId: "string option")
      (executor_input: "string option")
      (executor_verbose: bool)
      (executor_maxIterations: "JSNumber option")
  | RunnableSequence (sequence_steps: "RunnableStep list")

section \<open>createAgent\<close>

text \<open>Lines 159 to 164 and 207 to 212: the system prompt and the fixed instructions.\<close>

definition combinedPrompt :: "string \<Rightarrow> string" where
  "combinedPrompt systemPrompt =
     systemPrompt
     @ [CHR 0x0A] @ ''Work autonomously according to your specialty, using the tools available to you.''
     @ '' Do not ask for clarification.''
     @ '' Your other team members (and other teams) will collaborate with you with their own specialties.''
     @ '' You are chosen for a reason! You are one of the following team members: {team_members}.''"

text \<open>
  \<open>DEBUG\<close> is \<^verbatim>\<open>process.env.DEBUG\<close>. A string is truthy when it is defined and not
  empty.
\<close>

definition truthy_string :: "string option \<Rightarrow> bool" where
  "truthy_string s = (case s of None \<Rightarrow> False | Some t \<Rightarrow> t \<noteq> [])"

text \<open>
  Lines 158 to 217. The prompt is built first (line 167, line 214), so an error of
  \<^verbatim>\<open>ChatPromptTemplate.fromMessages\<close> comes before the test of \<^verbatim>\<open>bindTools\<close>. The
  other constructors of LangChain (\<^verbatim>\<open>bindTools\<close> itself, \<^verbatim>\<open>RunnableSequence.from\<close>,
  \<^verbatim>\<open>AgentExecutor.fromAgentAndTools\<close>) keep what they are given.
\<close>

definition createAgent ::
  "string option \<Rightarrow> BaseChatModel \<Rightarrow> Tool list \<Rightarrow> string \<Rightarrow> string option \<Rightarrow> FlowObj option
     \<Rightarrow> error + Agent" where
  "createAgent DEBUG llm tools systemPrompt maxIterations flowObj =
     (if tools \<noteq> [] then
        (case fromMessages
                [SystemMessage (combinedPrompt systemPrompt),
                 MessagesPlaceholder ''messages'',
                 MessagesPlaceholder ''agent_scratchpad''] of
           Inl thrown \<Rightarrow> Inl thrown
         | Inr prompt \<Rightarrow>
            (if \<not> bindTools_defined llm
             then Inl (new_Error ''This agent only compatible with function calling models.'')
             else
               (let modelWithTools = ModelWithTools llm tools;
                    agent = [AssignAgentScratchpad, PromptStep prompt, modelWithTools,
                             ToolCallingAgentOutputParser]
                in Inr (AgentExecutor agent tools
                          (case flowObj of None \<Rightarrow> None | Some f \<Rightarrow> flow_sessionId f)
                          (case flowObj of None \<Rightarrow> None | Some f \<Rightarrow> flow_chatId f)
                          (case flowObj of None \<Rightarrow> None | Some f \<Rightarrow> flow_input f)
                          (DEBUG = Some ''true'')
                          (if truthy_string maxIterations
                           then map_option parseFloat maxIterations else None)))))
      else
        (case fromMessages
                [SystemMessage (combinedPrompt systemPrompt), MessagesPlaceholder ''messages''] of
           Inl thrown \<Rightarrow> Inl thrown
         | Inr prompt \<Rightarrow>
            (let conversationChain =
                   RunnableSequence [PromptStep prompt, ModelStep llm, StringOutputParser]
             in Inr conversationChain)))"

section \<open>agentNode\<close>

text \<open>
  The result of \<^verbatim>\<open>agent.invoke\<close>: a string (the conversation chain ends in a string
  parser) or the executor's object with its \<^verbatim>\<open>output\<close> and, when present, the arrays
  \<^verbatim>\<open>usedTools\<close> and \<^verbatim>\<open>sourceDocuments\<close>. An array is truthy, also when empty; a
  string has neither property.
\<close>

type_synonym IUsedTool = string
type_synonym Document = string

datatype InvokeResult =
    StringResult string
  | ChainValues (chain_output: string) (chain_usedTools: "IUsedTool list option")
      (chain_sourceDocuments: "Document list option")

fun result_usedTools :: "InvokeResult \<Rightarrow> IUsedTool list option" where
  "result_usedTools (StringResult s) = None"
| "result_usedTools (ChainValues out used docs) = used"

fun result_sourceDocuments :: "InvokeResult \<Rightarrow> Document list option" where
  "result_sourceDocuments (StringResult s) = None"
| "result_sourceDocuments (ChainValues out used docs) = docs"

record AdditionalKwargs =
  usedTools :: "IUsedTool list option"
  sourceDocuments :: "Document list option"

text \<open>\<^verbatim>\<open>Object.keys(additional_kwargs).length\<close>.\<close>

definition keys_length :: "AdditionalKwargs \<Rightarrow> nat" where
  "keys_length kwargs =
     (if usedTools kwargs = None then 0 else 1) + (if sourceDocuments kwargs = None then 0 else 1)"

text \<open>
  \<^verbatim>\<open>new HumanMessage(fields)\<close>: the constructor of LangChain keeps the content and the name
  and puts the empty object in place of \<^verbatim>\<open>additional_kwargs\<close> when the fields have none
  (\<^verbatim>\<open>if (!fields.additional_kwargs) fields.additional_kwargs = {}\<close>). The empty object is
  the record with neither key.
\<close>

record HumanMessageFields =
  fields_content :: string
  fields_name :: string
  fields_additional_kwargs :: "AdditionalKwargs option"

record HumanMessage =
  message_content :: string
  message_name :: string
  message_additional_kwargs :: "AdditionalKwargs option"

definition new_HumanMessage :: "HumanMessageFields \<Rightarrow> HumanMessage" where
  "new_HumanMessage messageFields =
     \<lparr>message_content = fields_content messageFields,
      message_name = fields_name messageFields,
      message_additional_kwargs =
        Some (case fields_additional_kwargs messageFields of
                None \<Rightarrow> \<lparr>usedTools = None, sourceDocuments = None\<rparr>
              | Some kwargs \<Rightarrow> kwargs)\<rparr>"

record StateDelta =
  messages :: "HumanMessage list"

text \<open>
  \<^verbatim>\<open>agent.invoke\<close> runs the model and the tools: it is a parameter, a function from the
  agent, the input \<^verbatim>\<open>{ ...state, signal }\<close> and the configuration to an error thrown or
  a result. Every function below returns, beside its outcome, the list of the calls of
  \<^verbatim>\<open>agent.invoke\<close> it made.
\<close>

type_synonym ('s, 'c) invoke_call = "Agent \<times> ('s \<times> AbortSignal) \<times> 'c"

text \<open>
  Lines 234 to 247: the fields \<^verbatim>\<open>agentNode\<close> gives to \<^verbatim>\<open>new HumanMessage\<close> for a result
  of \<^verbatim>\<open>agent.invoke\<close>.
\<close>

definition humanMessage_fields :: "InvokeResult \<Rightarrow> string \<Rightarrow> HumanMessageFields" where
  "humanMessage_fields result name =
     (let additional_kwargs0 = \<lparr>usedTools = None, sourceDocuments = None\<rparr>;
          additional_kwargs1 =
            (if result_usedTools result \<noteq> None
             then additional_kwargs0\<lparr>usedTools := result_usedTools result\<rparr>
             else additional_kwargs0);
          additional_kwargs2 =
            (if result_sourceDocuments result \<noteq> None
             then additional_kwargs1\<lparr>sourceDocuments := result_sourceDocuments result\<rparr>
             else additional_kwargs1)
      in \<lparr>fields_content = (case result of StringResult s \<Rightarrow> s
                               | ChainValues out used docs \<Rightarrow> out),
          fields_name = name,
          fields_additional_kwargs =
            (if keys_length additional_kwargs2 \<noteq> 0 then Some additional_kwargs2 else None)\<rparr>)"

text \<open>The body of the \<^verbatim>\<open>try\<close> block, lines 230 to 249.\<close>

definition agentNode_try ::
  "(Agent \<Rightarrow> 's \<times> AbortSignal \<Rightarrow> 'c \<Rightarrow> error + InvokeResult)
     \<Rightarrow> 's \<Rightarrow> Agent \<Rightarrow> string \<Rightarrow> AbortController \<Rightarrow> 'c
     \<Rightarrow> (error + StateDelta) \<times> ('s, 'c) invoke_call list" where
  "agentNode_try invoke state agent name abortControllerSignal config =
     (if aborted (signal abortControllerSignal) then (Inl (new_Error ''Aborted!''), [])
      else
        (case invoke agent (state, signal abortControllerSignal) config of
           Inl thrown \<Rightarrow> (Inl thrown, [(agent, (state, signal abortControllerSignal), config)])
         | Inr result \<Rightarrow>
             (Inr \<lparr>messages = [new_HumanMessage (humanMessage_fields result name)]\<rparr>,
              [(agent, (state, signal abortControllerSignal), config)])))"

text \<open>Lines 250 to 252: whatever the \<^verbatim>\<open>try\<close> block throws is replaced.\<close>

definition agentNode ::
  "(Agent \<Rightarrow> 's \<times> AbortSignal \<Rightarrow> 'c \<Rightarrow> error + InvokeResult)
     \<Rightarrow> 's \<Rightarrow> Agent \<Rightarrow> string \<Rightarrow> AbortController \<Rightarrow> 'c
     \<Rightarrow> (error + StateDelta) \<times> ('s, 'c) invoke_call list" where
  "agentNode invoke state agent name abortControllerSignal config =
     (case agentNode_try invoke state agent name abortControllerSignal config of
        (Inl error, calls) \<Rightarrow> (Inl (new_Error ''Aborted!''), calls)
      | (Inr delta, calls) \<Rightarrow> (Inr delta, calls))"

section \<open>Worker_MultiAgents.init\<close>

text \<open>
  The step function \<^verbatim>\<open>workerNode\<close> is a closure over the agent, the normalized name and
  the abort controller of \<^verbatim>\<open>options.signal\<close>. The controller is a shared object whose
  flag may change after construction, so the closure keeps the agent and the name, and
  the controller is given as it is when the step runs.
\<close>

datatype WorkerNode = WorkerNode (closure_agent: Agent) (closure_name: string)

definition workerNode ::
  "(Agent \<Rightarrow> 's \<times> AbortSignal \<Rightarrow> 'c \<Rightarrow> error + InvokeResult)
     \<Rightarrow> WorkerNode \<Rightarrow> AbortController \<Rightarrow> 's \<Rightarrow> 'c
     \<Rightarrow> (error + StateDelta) \<times> ('s, 'c) invoke_call list" where
  "workerNode invoke closure abortControllerSignal state config =
     agentNode invoke state (closure_agent closure) (closure_name closure)
       abortControllerSignal config"

text \<open>The returned \<^verbatim>\<open>IMultiAgentNode\<close> (lines 137 to 145).\<close>

record IMultiAgentNode =
  worker_node :: WorkerNode
  worker_name :: string
  worker_label :: string
  worker_type :: string
  worker_workerPrompt :: string
  worker_workerInputVariables :: "string list"
  parentSupervisorName :: string

text \<open>
  \<^verbatim>\<open>JSON.parse\<close> is a parameter: a function from the text to the exception thrown or
  the object parsed. \<^verbatim>\<open>init\<close> returns, beside its outcome, the calls it made to
  \<^verbatim>\<open>JSON.parse\<close> and to \<^verbatim>\<open>createAgent\<close>, in order, with their arguments.
\<close>

datatype init_call =
    JSON_parse_call string
  | createAgent_call BaseChatModel "Tool list" string "string option" "FlowObj option"

fun is_createAgent_call :: "init_call \<Rightarrow> bool" where
  "is_createAgent_call (createAgent_call llm tools systemPrompt maxIterations flowObj) = True"
| "is_createAgent_call (JSON_parse_call text) = False"

fun is_JSON_parse_call :: "init_call \<Rightarrow> bool" where
  "is_JSON_parse_call (JSON_parse_call text) = True"
| "is_JSON_parse_call (createAgent_call llm tools systemPrompt maxIterations flowObj) = False"

text \<open>
  Lines 98 to 105:
  \<^verbatim>\<open>let workerInputVariablesValues: ICommonObject = {}
  if (promptValuesStr) {
      try {
          workerInputVariablesValues = typeof promptValuesStr === 'object' ? promptValuesStr : JSON.parse(promptValuesStr)
      } catch (exception) {
          throw new Error("Invalid JSON in the Worker's Prompt Input Values: " + exception)
      }
  }\<close>
  An object is truthy; a string is truthy when it is not empty.
\<close>

definition read_promptValues ::
  "(string \<Rightarrow> error + ICommonObject) \<Rightarrow> PromptValues option
     \<Rightarrow> (error + ICommonObject) \<times> init_call list" where
  "read_promptValues JSON_parse promptValuesStr =
     (case promptValuesStr of
        None \<Rightarrow> (Inr Map.empty, [])
      | Some (PromptValuesObject obj) \<Rightarrow> (Inr obj, [])
      | Some (PromptValuesString str) \<Rightarrow>
          (if str = [] then (Inr Map.empty, [])
           else
             (case JSON_parse str of
                Inl exception \<Rightarrow>
                  (Inl (new_Error (''Invalid JSON in the Worker's Prompt Input Values: ''
                                   @ error_toString exception)),
                   [JSON_parse_call str])
              | Inr obj \<Rightarrow> (Inr obj, [JSON_parse_call str]))))"

definition init ::
  "(string \<Rightarrow> error + ICommonObject) \<Rightarrow> string option \<Rightarrow> INodeData \<Rightarrow> string \<Rightarrow> NodeOptions
     \<Rightarrow> (error + IMultiAgentNode) \<times> init_call list" where
  "init JSON_parse DEBUG nodeData input options =
     (let tools = flatten (inputs_tools nodeData);
          workerPrompt = inputs_workerPrompt nodeData;
          supervisor = inputs_supervisor nodeData;
          maxIterations = inputs_maxIterations nodeData;
          model = inputs_model nodeData;
          promptValuesStr = inputs_promptValues nodeData
      in
        (case inputs_workerName nodeData of
           None \<Rightarrow> (Inl (new_Error ''Worker name is required!''), [])
         | Some workerLabel \<Rightarrow>
             (if workerLabel = [] then (Inl (new_Error ''Worker name is required!''), [])
              else
                (let workerName = normalize_workerName workerLabel in
                 (case read_promptValues JSON_parse promptValuesStr of
                    (Inl thrown, calls) \<Rightarrow> (Inl thrown, calls)
                  | (Inr workerInputVariablesValues, calls) \<Rightarrow>
                      (let llm = (case model of Some m \<Rightarrow> m | None \<Rightarrow> supervisor_llm supervisor);
                           workerInputVariables = getInputVariables workerPrompt
                       in
                         (if \<not> every_variable_provided workerInputVariables workerInputVariablesValues
                          then (Inl (new_Error ''Worker input variables values are not provided!''),
                                calls)
                          else
                            (let workerPrompt' =
                                   substitute_inputVariables workerInputVariablesValues
                                     workerInputVariables workerPrompt;
                                 flowObj = Some \<lparr>flow_sessionId = options_sessionId options,
                                                 flow_chatId = options_chatId options,
                                                 flow_input = Some input\<rparr>;
                                 calls' = calls @ [createAgent_call llm tools workerPrompt'
                                                     maxIterations flowObj]
                             in
                               (case createAgent DEBUG llm tools workerPrompt' maxIterations flowObj of
                                  Inl thrown \<Rightarrow> (Inl thrown, calls')
                                | Inr agent \<Rightarrow>
                                    (Inr \<lparr>worker_node = WorkerNode agent workerName,
                                          worker_name = workerName,
                                          worker_label = workerLabel,
                                          worker_type = ''worker'',
                                          worker_workerPrompt = workerPrompt',
                                          worker_workerInputVariables = workerInputVariables,
                                          parentSupervisorName =
                                            (case supervisor_name supervisor of
                                               Some n \<Rightarrow> n | None \<Rightarrow> ''supervisor'')\<rparr>,
                                     calls'))))))))))"

section \<open>Templates without nested braces\<close>

text \<open>
  \<open>closes_first s\<close>: the first brace of \<open>s\<close>, if it has one, is a closing brace.
  \<open>no_nested_braces s\<close>: after every opening brace of \<open>s\<close> the next brace is a closing
  one, so no placeholder of \<open>s\<close> holds another. \<open>plain_value v\<close>: the value has no opening
  brace and no dollar sign, so \<^verbatim>\<open>replaceAll\<close> inserts it as it is and it brings no
  placeholder of its own.
\<close>

fun closes_first :: "string \<Rightarrow> bool" where
  "closes_first [] = True"
| "closes_first (c # cs) =
     (if c = CHR ''{'' then False else if c = CHR ''}'' then True else closes_first cs)"

fun no_nested_braces :: "string \<Rightarrow> bool" where
  "no_nested_braces [] = True"
| "no_nested_braces (c # cs) =
     ((if c = CHR ''{'' then closes_first cs else True) \<and> no_nested_braces cs)"

definition plain_value :: "string \<Rightarrow> bool" where
  "plain_value v = (CHR ''{'' \<notin> set v \<and> CHR ''$'' \<notin> set v)"

text \<open>\<open>brace_free n\<close>: the name has no brace.\<close>

definition brace_free :: "string \<Rightarrow> bool" where
  "brace_free n = (CHR ''{'' \<notin> set n \<and> CHR ''}'' \<notin> set n)"

section \<open>Example configurations\<close>

text \<open>
  The example of the spec: a worker named Research Assistant with one tool, the template
  \<^verbatim>\<open>You are {role}, answer about {topic}.\<close> and the values analyst and markets.
\<close>

definition sample_model :: BaseChatModel where
  "sample_model = \<lparr>modelName = ''chatOpenAI'', bindTools_defined = True\<rparr>"

definition sample_plain_model :: BaseChatModel where
  "sample_plain_model = \<lparr>modelName = ''completionOnly'', bindTools_defined = False\<rparr>"

definition sample_supervisor :: Supervisor where
  "sample_supervisor = \<lparr>supervisor_name = None, supervisor_llm = sample_model\<rparr>"

definition sample_nodeData :: INodeData where
  "sample_nodeData =
     \<lparr>inputs_tools = Some [OneTool (Tool ''search'')],
      inputs_workerPrompt = ''You are {role}, answer about {topic}.'',
      inputs_workerName = Some ''Research Assistant'',
      inputs_supervisor = sample_supervisor,
      inputs_maxIterations = None,
      inputs_model = None,
      inputs_promptValues =
        Some (PromptValuesObject [''role'' \<mapsto> ''analyst'', ''topic'' \<mapsto> ''markets''])\<rparr>"

definition sample_values :: ICommonObject where
  "sample_values = [''role'' \<mapsto> ''analyst'', ''topic'' \<mapsto> ''markets'']"

definition sample_template :: string where
  "sample_template = ''You are {role}, answer about {topic}.''"

definition sample_options :: NodeOptions where
  "sample_options =
     \<lparr>options_signal = \<lparr>signal = \<lparr>aborted = False\<rparr>\<rparr>,
      options_sessionId = None, options_chatId = None\<rparr>"

definition sample_flowObj :: "FlowObj option" where
  "sample_flowObj = Some \<lparr>flow_sessionId = None, flow_chatId = None, flow_input = Some ''hello''\<rparr>"

definition sample_agent :: Agent where
  "sample_agent =
     AgentExecutor
       [AssignAgentScratchpad,
        PromptStep (ChatPromptTemplate_fromMessages
          [SystemMessage (combinedPrompt ''You are analyst, answer about markets.''),
           MessagesPlaceholder ''messages'',
           MessagesPlaceholder ''agent_scratchpad'']),
        ModelWithTools sample_model [Tool ''search''],
        ToolCallingAgentOutputParser]
       [Tool ''search''] None None (Some ''hello'') False None"

definition sample_workerDefinition :: IMultiAgentNode where
  "sample_workerDefinition =
     \<lparr>worker_node = WorkerNode sample_agent ''research_assistant'',
      worker_name = ''research_assistant'',
      worker_label = ''Research Assistant'',
      worker_type = ''worker'',
      worker_workerPrompt = ''You are analyst, answer about markets.'',
      worker_workerInputVariables = [''role'', ''topic''],
      parentSupervisorName = ''supervisor''\<rparr>"

text \<open>
  What \<^verbatim>\<open>JSON.parse\<close> does on the texts of the examples: the empty text and an opening
  brace alone are no JSON (a \<^verbatim>\<open>SyntaxError\<close>). Only these two texts are given to it.
\<close>

definition sample_JSON_parse :: "string \<Rightarrow> error + ICommonObject" where
  "sample_JSON_parse text = Inl (JSError ''SyntaxError'' ''Unexpected end of JSON input'')"

text \<open>An agent run that answers after using a tool, and one that times out.\<close>

definition sample_invoke ::
  "Agent \<Rightarrow> string list \<times> AbortSignal \<Rightarrow> unit \<Rightarrow> error + InvokeResult" where
  "sample_invoke agent invokeInput config = Inr (ChainValues ''done'' (Some [''search'']) None)"

definition sample_failing_invoke ::
  "Agent \<Rightarrow> string list \<times> AbortSignal \<Rightarrow> unit \<Rightarrow> error + InvokeResult" where
  "sample_failing_invoke agent invokeInput config =
     Inl (JSError ''TimeoutError'' ''Request timed out.'')"

text \<open>
  An agent run that answers with used tools and source documents, and one of the
  conversation chain, which answers with a string.
\<close>

definition sample_documents_invoke ::
  "Agent \<Rightarrow> string list \<times> AbortSignal \<Rightarrow> unit \<Rightarrow> error + InvokeResult" where
  "sample_documents_invoke agent invokeInput config =
     Inr (ChainValues ''done'' (Some [''search'']) (Some [''report.pdf'']))"

definition sample_text_invoke ::
  "Agent \<Rightarrow> string list \<times> AbortSignal \<Rightarrow> unit \<Rightarrow> error + InvokeResult" where
  "sample_text_invoke agent invokeInput config = Inr (StringResult ''done'')"

definition running :: AbortController where
  "running = \<lparr>signal = \<lparr>aborted = False\<rparr>\<rparr>"

definition cancelled :: AbortController where
  "cancelled = \<lparr>signal = \<lparr>aborted = True\<rparr>\<rparr>"

section \<open>Worker name normalization\<close>

lemma toLowerCase_char_idem: "toLowerCase_char (toLowerCase_char c) = toLowerCase_char c"
  by (simp add: toLowerCase_char_def Let_def)

lemma not_isSpace_underscore: "\<not> isSpace (CHR ''_'')"
  by (simp add: isSpace_def)

lemma toLowerCase_char_underscore: "toLowerCase_char (CHR ''_'') = CHR ''_''"
  by (simp add: toLowerCase_char_def)

lemma no_space_replace_whitespace: "\<forall>c \<in> set (replace_whitespace s). \<not> isSpace c"
  by (auto simp: replace_whitespace_def not_isSpace_underscore)

lemma dropWhile_none: "\<forall>c \<in> set s. \<not> P c \<Longrightarrow> dropWhile P s = s"
  by (cases s) auto

lemma trim_no_space: "\<forall>c \<in> set s. \<not> isSpace c \<Longrightarrow> trim s = s"
  by (simp add: trim_def dropWhile_none)

lemma toLowerCase_replace_whitespace:
  "toLowerCase (replace_whitespace (toLowerCase s)) = replace_whitespace (toLowerCase s)"
  by (simp add: toLowerCase_def replace_whitespace_def toLowerCase_char_idem
      toLowerCase_char_underscore)

lemma replace_whitespace_idem: "replace_whitespace (replace_whitespace s) = replace_whitespace s"
  by (simp add: replace_whitespace_def not_isSpace_underscore)

lemma normalize_workerName_eq:
  "normalize_workerName s = replace_whitespace (toLowerCase s)"
  unfolding normalize_workerName_def
  by (rule trim_no_space) (rule no_space_replace_whitespace)

text \<open>
  C6. Normalizing a normalized worker name returns it unchanged, for every string, and
  the label Research Assistant is normalized to research_assistant. After the white space
  has been replaced nothing is left for \<^verbatim>\<open>trim\<close> to remove.
\<close>

theorem normalize_workerName_idempotent:
  "normalize_workerName (normalize_workerName s) = normalize_workerName s
   \<and> normalize_workerName ''Research Assistant'' = ''research_assistant''"
proof
  let ?t = "replace_whitespace (toLowerCase s)"
  have "normalize_workerName ?t = replace_whitespace (toLowerCase ?t)"
    by (rule normalize_workerName_eq)
  also have "\<dots> = replace_whitespace ?t"
    by (simp only: toLowerCase_replace_whitespace)
  also have "\<dots> = ?t"
    by (rule replace_whitespace_idem)
  finally show "normalize_workerName (normalize_workerName s) = normalize_workerName s"
    by (simp only: normalize_workerName_eq)
next
  show "normalize_workerName ''Research Assistant'' = ''research_assistant''"
    by code_simp
qed

theorem normalize_workerName_idempotent_witness:
  "normalize_workerName (normalize_workerName ''Web  Search Agent'') = ''web__search_agent''"
proof -
  have "normalize_workerName ''Web  Search Agent'' = ''web__search_agent''"
    by code_simp
  with normalize_workerName_idempotent [of "''Web  Search Agent''"] show ?thesis
    by simp
qed

section \<open>Construction: the worker name, the model, the supervisor\<close>

lemma sample_init:
  "init sample_JSON_parse None sample_nodeData ''hello'' sample_options =
     (Inr sample_workerDefinition,
      [createAgent_call sample_model [Tool ''search'']
         ''You are analyst, answer about markets.'' None sample_flowObj])"
  by code_simp

text \<open>
  C7. When the worker name is absent or empty, \<^verbatim>\<open>init\<close> throws the error
  \<^verbatim>\<open>Worker name is required!\<close> and has called neither \<^verbatim>\<open>createAgent\<close> nor anything
  else on the way.
\<close>

theorem init_requires_workerName:
  "inputs_workerName nodeData = None \<or> inputs_workerName nodeData = Some [] \<Longrightarrow>
     init JSON_parse DEBUG nodeData input options
       = (Inl (new_Error ''Worker name is required!''), [])
     \<and> \<not> list_ex is_createAgent_call (snd (init JSON_parse DEBUG nodeData input options))"
  by (auto simp: init_def Let_def)

theorem init_requires_workerName_witness:
  "init sample_JSON_parse None (sample_nodeData\<lparr>inputs_workerName := None\<rparr>) ''hello''
       sample_options
     = (Inl (new_Error ''Worker name is required!''), [])
   \<and> init sample_JSON_parse None (sample_nodeData\<lparr>inputs_workerName := Some []\<rparr>) ''hello''
       sample_options
     = (Inl (new_Error ''Worker name is required!''), [])"
  using
    init_requires_workerName
      [of "sample_nodeData\<lparr>inputs_workerName := None\<rparr>" sample_JSON_parse None "''hello''"
          sample_options]
    init_requires_workerName
      [of "sample_nodeData\<lparr>inputs_workerName := Some []\<rparr>" sample_JSON_parse None "''hello''"
          sample_options]
  by simp



text \<open>
  C10. The parent supervisor name of the returned worker definition is the supervisor's
  name when that is present, and the text \<^verbatim>\<open>supervisor\<close> when it is null or undefined.
\<close>

theorem init_parentSupervisorName:
  "init JSON_parse DEBUG nodeData input options = (Inr workerDefinition, calls) \<Longrightarrow>
     parentSupervisorName workerDefinition =
       (case supervisor_name (inputs_supervisor nodeData) of
          Some supervisorName \<Rightarrow> supervisorName | None \<Rightarrow> ''supervisor'')"
  by (auto simp: init_def Let_def split: option.splits if_splits prod.splits sum.splits)

theorem init_parentSupervisorName_witness:
  "init sample_JSON_parse None sample_nodeData ''hello'' sample_options =
     (Inr sample_workerDefinition,
      [createAgent_call sample_model [Tool ''search'']
         ''You are analyst, answer about markets.'' None sample_flowObj])
   \<and> supervisor_name (inputs_supervisor sample_nodeData) = None
   \<and> parentSupervisorName sample_workerDefinition = ''supervisor''"
proof -
  have n: "supervisor_name (inputs_supervisor sample_nodeData) = None"
    by (simp add: sample_nodeData_def sample_supervisor_def)
  from init_parentSupervisorName [OF sample_init]
  have "parentSupervisorName sample_workerDefinition = ''supervisor''"
    by (simp add: n)
  with sample_init n show ?thesis by simp
qed

section \<open>createAgent: the template is parsed first, then tools need a model that binds them\<close>

lemma parseFString_error:
  "parseFString template = Inl thrown \<Longrightarrow>
     thrown = new_Error ''Unclosed '{' in template.''
     \<or> thrown = new_Error ''Single '}' in template.''"
proof (induction template rule: parseFString.induct)
  case 1
  then show ?case by (simp add: parseFString.simps)
next
  case (2 c cs)
  from "2.prems" have
    "(if c = CHR ''{'' \<and> cs \<noteq> [] \<and> hd cs = CHR ''{''
      then push_node (literal_node ''{'') (parseFString (tl cs))
      else if c = CHR ''}'' \<and> cs \<noteq> [] \<and> hd cs = CHR ''}''
      then push_node (literal_node ''}'') (parseFString (tl cs))
      else if c = CHR ''{''
      then (if CHR ''}'' \<notin> set cs then Inl (new_Error ''Unclosed '{' in template.'')
            else push_node (variable_node (takeWhile (\<lambda>x. x \<noteq> CHR ''}'') cs))
                   (parseFString (tl (dropWhile (\<lambda>x. x \<noteq> CHR ''}'') cs))))
      else if c = CHR ''}''
      then Inl (new_Error ''Single '}' in template.'')
      else push_node (literal_node (takeWhile (\<lambda>x. \<not> is_bracket x) (c # cs)))
             (parseFString (dropWhile (\<lambda>x. \<not> is_bracket x) (c # cs)))) = Inl thrown"
    by (simp only: parseFString.simps)
  then consider
    (doubled_open) "c = CHR ''{'' \<and> cs \<noteq> [] \<and> hd cs = CHR ''{''"
      "push_node (literal_node ''{'') (parseFString (tl cs)) = Inl thrown"
    | (doubled_close) "\<not> (c = CHR ''{'' \<and> cs \<noteq> [] \<and> hd cs = CHR ''{'')"
      "c = CHR ''}'' \<and> cs \<noteq> [] \<and> hd cs = CHR ''}''"
      "push_node (literal_node ''}'') (parseFString (tl cs)) = Inl thrown"
    | (unclosed) "thrown = new_Error ''Unclosed '{' in template.''"
    | (variable) "\<not> (c = CHR ''{'' \<and> cs \<noteq> [] \<and> hd cs = CHR ''{'')"
      "\<not> (c = CHR ''}'' \<and> cs \<noteq> [] \<and> hd cs = CHR ''}'')"
      "c = CHR ''{''" "\<not> CHR ''}'' \<notin> set cs"
      "push_node (variable_node (takeWhile (\<lambda>x. x \<noteq> CHR ''}'') cs))
         (parseFString (tl (dropWhile (\<lambda>x. x \<noteq> CHR ''}'') cs))) = Inl thrown"
    | (single) "thrown = new_Error ''Single '}' in template.''"
    | (literal) "\<not> (c = CHR ''{'' \<and> cs \<noteq> [] \<and> hd cs = CHR ''{'')"
      "\<not> (c = CHR ''}'' \<and> cs \<noteq> [] \<and> hd cs = CHR ''}'')"
      "c \<noteq> CHR ''{''" "c \<noteq> CHR ''}''"
      "push_node (literal_node (takeWhile (\<lambda>x. \<not> is_bracket x) (c # cs)))
         (parseFString (dropWhile (\<lambda>x. \<not> is_bracket x) (c # cs))) = Inl thrown"
    by (auto split: if_splits)
  then show ?case
  proof cases
    case doubled_open
    from doubled_open(2) have "parseFString (tl cs) = Inl thrown"
      by (simp add: push_node_def split: sum.splits)
    with doubled_open(1) show ?thesis by (rule "2.IH"(1))
  next
    case doubled_close
    from doubled_close(3) have "parseFString (tl cs) = Inl thrown"
      by (simp add: push_node_def split: sum.splits)
    with doubled_close(1,2) show ?thesis by (rule "2.IH"(2))
  next
    case unclosed
    then show ?thesis by simp
  next
    case variable
    from variable(5)
    have "parseFString (tl (dropWhile (\<lambda>x. x \<noteq> CHR ''}'') cs)) = Inl thrown"
      by (simp add: push_node_def split: sum.splits)
    with variable(1-4) show ?thesis by (rule "2.IH"(3))
  next
    case single
    then show ?thesis by simp
  next
    case literal
    from literal(5)
    have "parseFString (dropWhile (\<lambda>x. \<not> is_bracket x) (c # cs)) = Inl thrown"
      by (simp only: push_node_def split: sum.splits) simp
    with literal(1-4) show ?thesis by (rule "2.IH"(4))
  qed
qed

lemma first_template_error_cases:
  "first_template_error promptMessages = Some thrown \<Longrightarrow>
     thrown = new_Error ''Unclosed '{' in template.''
     \<or> thrown = new_Error ''Single '}' in template.''"
  by (induction promptMessages rule: first_template_error.induct)
     (auto split: sum.splits dest: parseFString_error)

lemma createAgent_error:
  "createAgent DEBUG llm tools systemPrompt maxIterations flowObj = Inl thrown \<Longrightarrow>
     thrown = new_Error ''This agent only compatible with function calling models.''
     \<or> thrown = new_Error ''Unclosed '{' in template.''
     \<or> thrown = new_Error ''Single '}' in template.''"
  by (auto simp: createAgent_def fromMessages_def Let_def
      split: if_splits sum.splits option.splits dest: parseFString_error)

lemma parseFString_literal:
  assumes "\<forall>x \<in> set s. \<not> is_bracket x" and "s \<noteq> []"
  shows "parseFString (s @ t) =
           push_node (literal_node (s @ takeWhile (\<lambda>x. \<not> is_bracket x) t))
             (parseFString (dropWhile (\<lambda>x. \<not> is_bracket x) t))"
proof -
  from assms obtain c cs where s: "s = c # cs" by (cases s) auto
  with assms have c: "\<not> is_bracket c" by simp
  have t: "takeWhile (\<lambda>x. \<not> is_bracket x) (s @ t) = s @ takeWhile (\<lambda>x. \<not> is_bracket x) t"
    and d: "dropWhile (\<lambda>x. \<not> is_bracket x) (s @ t) = dropWhile (\<lambda>x. \<not> is_bracket x) t"
    using assms(1) by simp_all
  have "parseFString (c # (cs @ t)) =
          push_node (literal_node (takeWhile (\<lambda>x. \<not> is_bracket x) (c # (cs @ t))))
            (parseFString (dropWhile (\<lambda>x. \<not> is_bracket x) (c # (cs @ t))))"
    using c by (simp add: is_bracket_def parseFString.simps del: takeWhile.simps dropWhile.simps)
  with t d s show ?thesis by simp
qed

lemma parseFString_combinedPrompt:
  assumes "brace_free systemPrompt"
  shows "\<exists>nodes. parseFString (combinedPrompt systemPrompt) = Inr nodes"
proof -
  have b: "\<forall>x \<in> set (systemPrompt @ [CHR 0x0A]). \<not> is_bracket x"
    using assms by (auto simp: brace_free_def is_bracket_def)
  have n: "systemPrompt @ [CHR 0x0A] \<noteq> []" by simp
  have e: "combinedPrompt systemPrompt =
          (systemPrompt @ [CHR 0x0A])
          @ (''Work autonomously according to your specialty, using the tools available to you.''
             @ '' Do not ask for clarification.''
             @ '' Your other team members (and other teams) will collaborate with you with their own specialties.''
             @ '' You are chosen for a reason! You are one of the following team members: {team_members}.'')"
    by (simp add: combinedPrompt_def)
  show ?thesis
    unfolding e parseFString_literal [OF b n]
    by (simp add: is_bracket_def push_node_def parseFString.simps)
qed

text \<open>
  C5 (as amended). Given a non-empty list of tools, \<^verbatim>\<open>createAgent\<close> first builds the
  prompt: when the template parser rejects the system prompt with its boilerplate,
  \<^verbatim>\<open>createAgent\<close> throws the parser's error, whatever the model. When the parser accepts
  it, as it does every system prompt without braces, \<^verbatim>\<open>createAgent\<close> throws the error
  \<^verbatim>\<open>This agent only compatible with function calling models.\<close> if the model's
  \<^verbatim>\<open>bindTools\<close> is undefined, and returns the executor of the tool loop over these tools
  if it is defined.
\<close>

theorem createAgent_needs_bindTools:
  "tools \<noteq> [] \<Longrightarrow>
     (case parseFString (combinedPrompt systemPrompt) of
        Inl thrown \<Rightarrow>
          createAgent DEBUG llm tools systemPrompt maxIterations flowObj = Inl thrown
      | Inr nodes \<Rightarrow>
          (\<not> bindTools_defined llm \<longrightarrow>
             createAgent DEBUG llm tools systemPrompt maxIterations flowObj
               = Inl (new_Error ''This agent only compatible with function calling models.''))
          \<and> (bindTools_defined llm \<longrightarrow>
               (case createAgent DEBUG llm tools systemPrompt maxIterations flowObj of
                  Inr agent \<Rightarrow> is_AgentExecutor agent \<and> executor_tools agent = tools
                | Inl thrown \<Rightarrow> False)))
     \<and> (brace_free systemPrompt \<longrightarrow>
          (\<exists>nodes. parseFString (combinedPrompt systemPrompt) = Inr nodes))"
  by (auto simp: createAgent_def fromMessages_def Let_def parseFString_combinedPrompt
      split: sum.splits)

lemma sample_template_accepted:
  "parseFString (combinedPrompt ''You are analyst, answer about markets.'') =
     Inr [literal_node
            (''You are analyst, answer about markets.'' @ [CHR 0x0A]
             @ ''Work autonomously according to your specialty, using the tools available to you.''
             @ '' Do not ask for clarification.''
             @ '' Your other team members (and other teams) will collaborate with you with their own specialties.''
             @ '' You are chosen for a reason! You are one of the following team members: ''),
          variable_node ''team_members'',
          literal_node ''.'']"
  by code_simp

lemma sample_template_rejected:
  "parseFString (combinedPrompt ''a } b'') = Inl (new_Error ''Single '}' in template.'')"
  by code_simp

theorem createAgent_needs_bindTools_witness:
  "createAgent None sample_plain_model [Tool ''search''] ''You are analyst, answer about markets.''
       None sample_flowObj
     = Inl (new_Error ''This agent only compatible with function calling models.'')
   \<and> createAgent None sample_model [Tool ''search''] ''You are analyst, answer about markets.'' None
       sample_flowObj
     = Inr sample_agent
   \<and> is_AgentExecutor sample_agent \<and> executor_tools sample_agent = [Tool ''search'']
   \<and> createAgent None sample_model [Tool ''search''] ''a } b'' None sample_flowObj
     = Inl (new_Error ''Single '}' in template.'')
   \<and> brace_free ''You are analyst, answer about markets.''"
proof -
  have t: "[Tool ''search''] \<noteq> []" by simp
  have p: "\<not> bindTools_defined sample_plain_model" by (simp add: sample_plain_model_def)
  have m: "bindTools_defined sample_model" by (simp add: sample_model_def)
  have f: "brace_free ''You are analyst, answer about markets.''" by (simp add: brace_free_def)
  have e: "createAgent None sample_model [Tool ''search''] ''You are analyst, answer about markets.''
             None sample_flowObj = Inr sample_agent"
    by code_simp
  from createAgent_needs_bindTools
    [OF t, where systemPrompt = "''You are analyst, answer about markets.''" and DEBUG = None
       and llm = sample_plain_model and maxIterations = None and flowObj = sample_flowObj] p
  have a: "createAgent None sample_plain_model [Tool ''search'']
             ''You are analyst, answer about markets.'' None sample_flowObj
           = Inl (new_Error ''This agent only compatible with function calling models.'')"
    by (simp add: sample_template_accepted)
  from createAgent_needs_bindTools
    [OF t, where systemPrompt = "''You are analyst, answer about markets.''" and DEBUG = None
       and llm = sample_model and maxIterations = None and flowObj = sample_flowObj] m e
  have b: "is_AgentExecutor sample_agent \<and> executor_tools sample_agent = [Tool ''search'']"
    by (simp add: sample_template_accepted)
  from createAgent_needs_bindTools
    [OF t, where systemPrompt = "''a } b''" and DEBUG = None
       and llm = sample_model and maxIterations = None and flowObj = sample_flowObj]
  have c: "createAgent None sample_model [Tool ''search''] ''a } b'' None sample_flowObj
           = Inl (new_Error ''Single '}' in template.'')"
    by (simp add: sample_template_rejected)
  from a e b c f show ?thesis by simp
qed

text \<open>
  The claim as it was stated fails: the prompt is built before \<^verbatim>\<open>bindTools\<close> is tested,
  so for the system prompt \<^verbatim>\<open>a } b\<close> a model without \<^verbatim>\<open>bindTools\<close> does not get the
  function-calling error, and a model with it gets no executor; both get the parser's
  error.
\<close>

theorem createAgent_template_error_first:
  "\<not> bindTools_defined sample_plain_model
   \<and> createAgent None sample_plain_model [Tool ''search''] ''a } b'' None sample_flowObj
     = Inl (new_Error ''Single '}' in template.'')
   \<and> bindTools_defined sample_model
   \<and> createAgent None sample_model [Tool ''search''] ''a } b'' None sample_flowObj
     = Inl (new_Error ''Single '}' in template.'')"
  by code_simp

section \<open>agentNode: cancellation, failure and the message returned\<close>

text \<open>
  C3. When the signal is aborted on entry, \<^verbatim>\<open>agentNode\<close> throws \<^verbatim>\<open>Aborted!\<close>, has made
  no call of \<^verbatim>\<open>agent.invoke\<close> (the list of calls is empty), and returns no state delta.
\<close>

theorem agentNode_aborted_before_invoke:
  "aborted (signal abortControllerSignal) \<Longrightarrow>
     agentNode invoke state agent name abortControllerSignal config
       = (Inl (new_Error ''Aborted!''), [])"
  by (simp add: agentNode_def agentNode_try_def)

theorem agentNode_aborted_before_invoke_witness:
  "aborted (signal cancelled)
   \<and> agentNode sample_invoke [''find the news''] sample_agent ''research_assistant'' cancelled ()
       = (Inl (new_Error ''Aborted!''), [])"
proof -
  have h: "aborted (signal cancelled)" by (simp add: cancelled_def)
  from agentNode_aborted_before_invoke [OF h]
  have "agentNode sample_invoke [''find the news''] sample_agent ''research_assistant'' cancelled ()
       = (Inl (new_Error ''Aborted!''), [])" .
  with h show ?thesis by (rule conjI)
qed

text \<open>
  C2. Whatever is thrown while \<^verbatim>\<open>agentNode\<close> runs, the caller sees the error
  \<^verbatim>\<open>Aborted!\<close>: every error \<^verbatim>\<open>agentNode\<close> throws is that one, both when
  \<^verbatim>\<open>agent.invoke\<close> throws an error of any kind and message and when the signal was
  aborted on entry.
\<close>

theorem agentNode_errors_are_Aborted:
  "(fst (agentNode invoke state agent name abortControllerSignal config) = Inl thrown
      \<longrightarrow> thrown = new_Error ''Aborted!'')
   \<and> (invoke agent (state, signal abortControllerSignal) config = Inl original
      \<longrightarrow> fst (agentNode invoke state agent name abortControllerSignal config)
            = Inl (new_Error ''Aborted!''))
   \<and> (aborted (signal abortControllerSignal)
      \<longrightarrow> fst (agentNode invoke state agent name abortControllerSignal config)
            = Inl (new_Error ''Aborted!''))"
  by (auto simp: agentNode_def agentNode_try_def Let_def split: sum.splits if_splits prod.splits)

theorem agentNode_errors_are_Aborted_witness:
  "sample_failing_invoke sample_agent ([''find the news''], signal running) ()
     = Inl (JSError ''TimeoutError'' ''Request timed out.'')
   \<and> fst (agentNode sample_failing_invoke [''find the news''] sample_agent ''research_assistant''
            running ())
     = Inl (new_Error ''Aborted!'')"
proof -
  have h: "sample_failing_invoke sample_agent ([''find the news''], signal running) ()
     = Inl (JSError ''TimeoutError'' ''Request timed out.'')"
    by (simp add: sample_failing_invoke_def)
  from agentNode_errors_are_Aborted
    [of sample_failing_invoke "[''find the news'']" sample_agent "''research_assistant''" running "()"
        "new_Error ''Aborted!''" "JSError ''TimeoutError'' ''Request timed out.''"] h
  have "fst (agentNode sample_failing_invoke [''find the news''] sample_agent ''research_assistant''
            running ())
     = Inl (new_Error ''Aborted!'')"
    by simp
  with h show ?thesis by (rule conjI)
qed

text \<open>
  C4 (as amended). When \<^verbatim>\<open>agent.invoke\<close> returns a result, \<^verbatim>\<open>agentNode\<close> returns a state
  delta with exactly one message. For a string result the content is the string and the
  message's \<^verbatim>\<open>additional_kwargs\<close> are the empty object. For an object result the content
  is its \<^verbatim>\<open>output\<close> and the \<^verbatim>\<open>additional_kwargs\<close> hold \<^verbatim>\<open>usedTools\<close> exactly when the
  result has it and \<^verbatim>\<open>sourceDocuments\<close> exactly when the result has it, each with the
  result's value. The name is the name \<^verbatim>\<open>agentNode\<close> was given. When the result has
  neither, \<^verbatim>\<open>agentNode\<close> gives \<^verbatim>\<open>undefined\<close> to the message constructor for
  \<^verbatim>\<open>additional_kwargs\<close>, and the constructor puts the empty object there: the message is
  not without the field. The name the step function of a constructed worker passes is
  the normalized worker name.
\<close>

theorem agentNode_success_message:
  "\<not> aborted (signal abortControllerSignal) \<Longrightarrow>
   invoke agent (state, signal abortControllerSignal) config = Inr result \<Longrightarrow>
     (\<forall>s. result = StringResult s \<longrightarrow>
        fst (agentNode invoke state agent name abortControllerSignal config) =
          Inr \<lparr>messages =
                [\<lparr>message_content = s,
                  message_name = name,
                  message_additional_kwargs =
                    Some \<lparr>usedTools = None, sourceDocuments = None\<rparr>\<rparr>]\<rparr>
        \<and> fields_additional_kwargs (humanMessage_fields result name) = None)
     \<and> (\<forall>out used docs. result = ChainValues out used docs \<longrightarrow>
        fst (agentNode invoke state agent name abortControllerSignal config) =
          Inr \<lparr>messages =
                [\<lparr>message_content = out,
                  message_name = name,
                  message_additional_kwargs =
                    Some \<lparr>usedTools = used, sourceDocuments = docs\<rparr>\<rparr>]\<rparr>
        \<and> fields_additional_kwargs (humanMessage_fields result name) =
            (if used = None \<and> docs = None then None
             else Some \<lparr>usedTools = used, sourceDocuments = docs\<rparr>))
     \<and> (\<forall>nodeData JSON_parse DEBUG input options workerDefinition calls workerLabel.
          init JSON_parse DEBUG nodeData input options = (Inr workerDefinition, calls)
          \<and> inputs_workerName nodeData = Some workerLabel
          \<longrightarrow> workerNode invoke (worker_node workerDefinition) abortControllerSignal state config
                = agentNode invoke state (closure_agent (worker_node workerDefinition))
                    (normalize_workerName workerLabel) abortControllerSignal config)"
proof (intro conjI allI impI)
  assume r: "\<not> aborted (signal abortControllerSignal)"
    and i: "invoke agent (state, signal abortControllerSignal) config = Inr result"
  {
    fix s assume "result = StringResult s"
    with r i show "fst (agentNode invoke state agent name abortControllerSignal config) =
          Inr \<lparr>messages =
                [\<lparr>message_content = s,
                  message_name = name,
                  message_additional_kwargs =
                    Some \<lparr>usedTools = None, sourceDocuments = None\<rparr>\<rparr>]\<rparr>"
      and "fields_additional_kwargs (humanMessage_fields result name) = None"
      by (simp_all add: agentNode_def agentNode_try_def new_HumanMessage_def
          humanMessage_fields_def keys_length_def Let_def)
  }
  {
    fix out used docs assume "result = ChainValues out used docs"
    with r i show "fst (agentNode invoke state agent name abortControllerSignal config) =
          Inr \<lparr>messages =
                [\<lparr>message_content = out,
                  message_name = name,
                  message_additional_kwargs =
                    Some \<lparr>usedTools = used, sourceDocuments = docs\<rparr>\<rparr>]\<rparr>"
      and "fields_additional_kwargs (humanMessage_fields result name) =
            (if used = None \<and> docs = None then None
             else Some \<lparr>usedTools = used, sourceDocuments = docs\<rparr>)"
      by (auto simp: agentNode_def agentNode_try_def new_HumanMessage_def
          humanMessage_fields_def keys_length_def Let_def)
  }
next
  fix nodeData JSON_parse DEBUG input options workerDefinition calls workerLabel
  assume "init JSON_parse DEBUG nodeData input options = (Inr workerDefinition, calls)
          \<and> inputs_workerName nodeData = Some workerLabel"
  then show "workerNode invoke (worker_node workerDefinition) abortControllerSignal state config
                = agentNode invoke state (closure_agent (worker_node workerDefinition))
                    (normalize_workerName workerLabel) abortControllerSignal config"
    by (auto simp: init_def Let_def workerNode_def
        split: option.splits if_splits prod.splits sum.splits)
qed

theorem agentNode_success_message_witness:
  "\<not> aborted (signal running)
   \<and> sample_documents_invoke sample_agent ([''find the news''], signal running) ()
       = Inr (ChainValues ''done'' (Some [''search'']) (Some [''report.pdf'']))
   \<and> fst (agentNode sample_documents_invoke [''find the news''] sample_agent
            ''research_assistant'' running ())
       = Inr \<lparr>messages =
               [\<lparr>message_content = ''done'',
                 message_name = ''research_assistant'',
                 message_additional_kwargs =
                   Some \<lparr>usedTools = Some [''search''],
                         sourceDocuments = Some [''report.pdf'']\<rparr>\<rparr>]\<rparr>
   \<and> sample_text_invoke sample_agent ([''find the news''], signal running) ()
       = Inr (StringResult ''done'')
   \<and> fields_additional_kwargs (humanMessage_fields (StringResult ''done'') ''research_assistant'')
       = None
   \<and> workerNode sample_documents_invoke (worker_node sample_workerDefinition) running
         [''find the news''] ()
       = agentNode sample_documents_invoke [''find the news'']
           (closure_agent (worker_node sample_workerDefinition))
           (normalize_workerName ''Research Assistant'') running ()"
proof -
  have r: "\<not> aborted (signal running)" by (simp add: running_def)
  have i: "sample_documents_invoke sample_agent ([''find the news''], signal running) ()
       = Inr (ChainValues ''done'' (Some [''search'']) (Some [''report.pdf'']))"
    by (simp add: sample_documents_invoke_def)
  have j: "sample_text_invoke sample_agent ([''find the news''], signal running) ()
       = Inr (StringResult ''done'')"
    by (simp add: sample_text_invoke_def)
  have l: "inputs_workerName sample_nodeData = Some ''Research Assistant''"
    by (simp add: sample_nodeData_def)
  note t = agentNode_success_message
    [where invoke = sample_documents_invoke and agent = sample_agent
       and state = "[''find the news'']" and config = "()" and name = "''research_assistant''",
     OF r i]
  note a = t [THEN conjunct2, THEN conjunct1, rule_format, OF refl, THEN conjunct1]
  note b = t [THEN conjunct2, THEN conjunct2, rule_format, OF conjI [OF sample_init l]]
  note c = agentNode_success_message
    [where invoke = sample_text_invoke and agent = sample_agent
       and state = "[''find the news'']" and config = "()" and name = "''research_assistant''",
     OF r j, THEN conjunct1, rule_format, OF refl, THEN conjunct2]
  from r i a j c b show ?thesis by simp
qed

text \<open>
  The claim as it was stated fails where the result has neither kind of metadata: the
  one message of the delta is not without \<^verbatim>\<open>additional_kwargs\<close>, it has the empty object
  the message constructor puts there.
\<close>

theorem agentNode_message_keeps_empty_kwargs:
  "result_usedTools (StringResult ''done'') = None
   \<and> result_sourceDocuments (StringResult ''done'') = None
   \<and> fst (agentNode sample_text_invoke [''find the news''] sample_agent ''research_assistant''
            running ())
       = Inr \<lparr>messages =
               [\<lparr>message_content = ''done'',
                 message_name = ''research_assistant'',
                 message_additional_kwargs =
                   Some \<lparr>usedTools = None, sourceDocuments = None\<rparr>\<rparr>]\<rparr>
   \<and> keys_length \<lparr>usedTools = None, sourceDocuments = None\<rparr> = 0"
  by (simp add: agentNode_def agentNode_try_def new_HumanMessage_def humanMessage_fields_def
      keys_length_def sample_text_invoke_def running_def Let_def)

section \<open>Substitution of the prompt variables\<close>

lemma GetSubstitution_plain:
  "CHR ''$'' \<notin> set replaceValue \<Longrightarrow>
     GetSubstitution matched preceding following replaceValue = replaceValue"
  by (induction matched preceding following replaceValue rule: GetSubstitution.induct) auto

lemma closes_first_replaceAll_from:
  "closes_first s \<Longrightarrow>
     closes_first (replaceAll_from (CHR ''{'' # p) replaceValue preceding s)"
  by (induction s arbitrary: preceding) (auto split: if_splits)

lemma no_nested_braces_append_plain:
  "CHR ''{'' \<notin> set v \<Longrightarrow> no_nested_braces (v @ s) = no_nested_braces s"
  by (induction v) auto

lemma no_nested_braces_drop: "no_nested_braces s \<Longrightarrow> no_nested_braces (drop n s)"
  by (induction s arbitrary: n) (auto simp: drop_Cons split: nat.splits)

lemma no_nested_braces_replaceAll_from:
  "no_nested_braces s \<Longrightarrow> plain_value replaceValue \<Longrightarrow>
     no_nested_braces (replaceAll_from (CHR ''{'' # p) replaceValue preceding s)"
proof (induction "CHR ''{'' # p" replaceValue preceding s rule: replaceAll_from.induct)
  case (1 replaceValue preceding)
  then show ?case by simp
next
  case (2 replaceValue preceding c cs)
  show ?case
  proof (cases "prefix (CHR ''{'' # p) (c # cs)")
    case True
    have "no_nested_braces (drop (length (CHR ''{'' # p)) (c # cs))"
      using "2.prems"(1) by (rule no_nested_braces_drop)
    with 2 True show ?thesis
      by (simp add: GetSubstitution_plain plain_value_def no_nested_braces_append_plain)
  next
    case False
    with 2 show ?thesis
      by (auto simp: closes_first_replaceAll_from)
  qed
qed

lemma sublist_skip_plain:
  "x \<notin> set v \<Longrightarrow> sublist (x # p) (v @ s) \<Longrightarrow> sublist (x # p) s"
  by (induction v) (auto simp: sublist_Cons_right)

lemma prefix_name_replaceAll_from:
  "closes_first s \<Longrightarrow> brace_free b \<Longrightarrow>
   prefix (b @ ''}'') (replaceAll_from (CHR ''{'' # p) replaceValue preceding s) \<Longrightarrow>
     prefix (b @ ''}'') s"
proof (induction s arbitrary: b preceding)
  case Nil
  then show ?case by simp
next
  case (Cons c cs)
  show ?case
  proof (cases b)
    case Nil
    with Cons.prems show ?thesis by (auto split: if_splits)
  next
    case (Cons b1 bs)
    with Cons.prems Cons.IH [of bs "preceding @ [c]"] show ?thesis
      by (auto simp: brace_free_def split: if_splits)
  qed
qed

lemma sublist_of_drop: "sublist xs (drop n ys) \<Longrightarrow> sublist xs ys"
proof -
  assume "sublist xs (drop n ys)"
  then obtain ps ss where "drop n ys = ps @ xs @ ss"
    by (auto simp: sublist_def)
  then have "ys = (take n ys @ ps) @ xs @ ss"
    by (metis append_assoc append_take_drop_id)
  then show "sublist xs ys"
    unfolding sublist_def by blast
qed

lemma sublist_placeholder_replaceAll_from:
  "no_nested_braces s \<Longrightarrow> plain_value replaceValue \<Longrightarrow> brace_free b \<Longrightarrow>
   sublist (placeholder b) (replaceAll_from (placeholder a) replaceValue preceding s) \<Longrightarrow>
     sublist (placeholder b) s \<and> b \<noteq> a"
proof (induction "placeholder a" replaceValue preceding s rule: replaceAll_from.induct)
  case (1 replaceValue preceding)
  then show ?case by (simp add: placeholder_def)
next
  case (2 replaceValue preceding c cs)
  show ?case
  proof (cases "prefix (placeholder a) (c # cs)")
    case True
    let ?rest = "drop (length (placeholder a)) (c # cs)"
    have ne: "placeholder a \<noteq> []" by (simp add: placeholder_def)
    have n: "no_nested_braces ?rest"
      using "2.prems"(1) by (rule no_nested_braces_drop)
    have "sublist (placeholder b)
            (replaceValue @ replaceAll_from (placeholder a) replaceValue (preceding @ placeholder a) ?rest)"
      using "2.prems"(2,4) True ne by (simp add: GetSubstitution_plain plain_value_def)
    then have "sublist (placeholder b)
            (replaceAll_from (placeholder a) replaceValue (preceding @ placeholder a) ?rest)"
      using "2.prems"(2) sublist_skip_plain [of "CHR ''{''" replaceValue "b @ ''}''"]
      by (simp add: placeholder_def plain_value_def)
    with "2.hyps"(1) [OF _ n "2.prems"(2,3)] True ne
    have "sublist (placeholder b) ?rest \<and> b \<noteq> a" by simp
    then show ?thesis by (auto dest: sublist_of_drop)
  next
    case False
    have ne: "placeholder a \<noteq> []" by (simp add: placeholder_def)
    from "2.prems"(4) False
    have s: "sublist (placeholder b)
               (c # replaceAll_from (placeholder a) replaceValue (preceding @ [c]) cs)"
      by simp
    have n: "no_nested_braces cs" using "2.prems"(1) by simp
    from s consider
      (here) "prefix (placeholder b)
                (c # replaceAll_from (placeholder a) replaceValue (preceding @ [c]) cs)"
      | (later) "sublist (placeholder b)
                (replaceAll_from (placeholder a) replaceValue (preceding @ [c]) cs)"
      by (auto simp: sublist_Cons_right)
    then show ?thesis
    proof cases
      case here
      then have c: "c = CHR ''{''"
        and p: "prefix (b @ ''}'')
                  (replaceAll_from (CHR ''{'' # a @ ''}'') replaceValue (preceding @ [c]) cs)"
        by (auto simp: placeholder_def)
      from "2.prems"(1) c have "closes_first cs" by simp
      from prefix_name_replaceAll_from [OF this "2.prems"(3) p]
      have "prefix (placeholder b) (c # cs)" by (simp add: placeholder_def c)
      with False show ?thesis by auto
    next
      case later
      with "2.hyps"(2) [OF _ n "2.prems"(2,3)] False
      have "sublist (placeholder b) cs \<and> b \<noteq> a" by simp
      then show ?thesis by (auto simp: sublist_Cons_right)
    qed
  qed
qed

lemma scan_inputVariables_brace_free:
  "n \<in> set (scan_inputVariables opened s) \<Longrightarrow>
   (case opened of Some m \<Rightarrow> brace_free m | None \<Rightarrow> True) \<Longrightarrow> brace_free n"
proof (induction s arbitrary: opened)
  case Nil
  then show ?case by simp
next
  case (Cons c cs)
  show ?case
  proof (cases "c = CHR ''{''")
    case True
    with Cons.prems(1) have "n \<in> set (scan_inputVariables (Some []) cs)" by simp
    then show ?thesis by (rule Cons.IH) (simp add: brace_free_def)
  next
    case False
    note open_brace = this
    show ?thesis
    proof (cases "c = CHR ''}''")
      case True
      with Cons.prems open_brace
      have "n \<in> set (scan_inputVariables None cs) \<or> (opened = Some n \<and> brace_free n)"
        by (auto split: option.splits)
      then show ?thesis
      proof
        assume "n \<in> set (scan_inputVariables None cs)"
        then show ?thesis by (rule Cons.IH) simp
      qed simp
    next
      case False
      with Cons.prems(1) open_brace
      have "n \<in> set (scan_inputVariables (map_option (\<lambda>name. name @ [c]) opened) cs)"
        by simp
      moreover have "case map_option (\<lambda>name. name @ [c]) opened of
                       Some m \<Rightarrow> brace_free m | None \<Rightarrow> True"
        using Cons.prems(2) False open_brace
        by (auto simp: brace_free_def split: option.splits)
      ultimately show ?thesis by (rule Cons.IH)
    qed
  qed
qed

lemma getInputVariables_brace_free:
  "n \<in> set (getInputVariables paramValue) \<Longrightarrow> brace_free n"
  using scan_inputVariables_brace_free [of n None paramValue]
  by (simp add: getInputVariables_def)

lemma every_variable_provided_iff:
  "every_variable_provided names V \<longleftrightarrow> set names \<subseteq> dom V"
  by (auto simp: every_variable_provided_def list_all_iff)

lemma replaceAll_placeholder:
  "replaceAll s (placeholder a) v = replaceAll_from (placeholder a) v [] s"
  by (simp add: replaceAll_def placeholder_def)

lemma substitute_inputVariables_no_placeholder:
  "no_nested_braces s \<Longrightarrow>
   \<forall>n \<in> set names. brace_free n \<and> plain_value (property_text V n) \<Longrightarrow>
   \<forall>n \<in> D. brace_free n \<and> \<not> sublist (placeholder n) s \<Longrightarrow>
     \<forall>n \<in> D \<union> set names. \<not> sublist (placeholder n) (substitute_inputVariables V names s)"
proof (induction names arbitrary: s D)
  case Nil
  then show ?case by simp
next
  case (Cons a names)
  let ?s' = "replaceAll s (placeholder a) (property_text V a)"
  have pv: "plain_value (property_text V a)" and bf: "brace_free a"
    using Cons.prems(2) by simp_all
  have n': "no_nested_braces ?s'"
    using Cons.prems(1) pv no_nested_braces_replaceAll_from [of s "property_text V a" "a @ ''}''" "[]"]
    by (simp add: replaceAll_placeholder) (simp add: placeholder_def)
  have d': "\<forall>n \<in> insert a D. brace_free n \<and> \<not> sublist (placeholder n) ?s'"
  proof
    fix n assume n: "n \<in> insert a D"
    then have b: "brace_free n" using bf Cons.prems(3) by auto
    have "\<not> sublist (placeholder n) ?s'"
    proof
      assume "sublist (placeholder n) ?s'"
      then have "sublist (placeholder n) s \<and> n \<noteq> a"
        using sublist_placeholder_replaceAll_from [OF Cons.prems(1) pv b]
        by (simp add: replaceAll_placeholder)
      with n Cons.prems(3) show False by auto
    qed
    with b show "brace_free n \<and> \<not> sublist (placeholder n) ?s'" ..
  qed
  have r: "\<forall>n \<in> set names. brace_free n \<and> plain_value (property_text V n)"
    using Cons.prems(2) by simp
  from Cons.IH [OF n' r d'] show ?case by simp
qed

lemma replaceAll_from_literally:
  "CHR ''$'' \<notin> set v \<Longrightarrow>
     replaceAll_from searchValue v preceding s = replace_literally searchValue v s"
  by (induction searchValue v preceding s rule: replaceAll_from.induct)
     (auto simp: GetSubstitution_plain)

lemma substitute_inputVariables_literally:
  "\<forall>n \<in> set names. CHR ''$'' \<notin> set (property_text V n) \<Longrightarrow>
     substitute_inputVariables V names T = substitute_literally V names T"
  by (induction names arbitrary: T)
     (simp_all add: replaceAll_placeholder replaceAll_from_literally)

text \<open>
  A dollar sign in a value is not inserted as it is: \<^verbatim>\<open>replaceAll\<close> reads \<^verbatim>\<open>$$\<close> as one
  dollar sign.
\<close>

lemma replaceAll_expands_dollar:
  "replaceAll ''Pay {x} now'' (placeholder ''x'') ''$$5'' = ''Pay $5 now''
   \<and> replace_literally (placeholder ''x'') ''$$5'' ''Pay {x} now'' = ''Pay $$5 now''"
  by code_simp

text \<open>
  C1 (as amended). Let the worker name be present and not empty, and let \<open>V\<close> be the
  values \<^verbatim>\<open>init\<close> reads from \<^verbatim>\<open>promptValues\<close>. If every name extracted from the
  template \<open>T\<close> is a key of \<open>V\<close>, the check passes: \<^verbatim>\<open>init\<close> goes on to call
  \<^verbatim>\<open>createAgent\<close> with the prompt its loop of \<^verbatim>\<open>replaceAll\<close> calls leaves, and that is
  the prompt of the worker definition returned. When no substituted value has a dollar
  sign, that prompt is the template in which, for each extracted name in order, every
  occurrence of the placeholder is replaced by the value itself. The prompt has no
  occurrence of the placeholder of any extracted name left when the template has no
  nested braces and no substituted value has an opening brace or a dollar sign. If some
  extracted name is not a key of \<open>V\<close>, \<^verbatim>\<open>init\<close> throws
  \<^verbatim>\<open>Worker input variables values are not provided!\<close>.
\<close>

theorem init_substitutes_inputVariables:
  assumes "inputs_workerName nodeData = Some workerLabel" and "workerLabel \<noteq> []"
    and "read_promptValues JSON_parse (inputs_promptValues nodeData) = (Inr V, calls)"
    and "T = inputs_workerPrompt nodeData"
  shows
    "(set (getInputVariables T) \<subseteq> dom V \<longrightarrow>
        (\<exists>llm tools maxIterations flowObj.
           snd (init JSON_parse DEBUG nodeData input options)
             = calls @ [createAgent_call llm tools
                          (substitute_inputVariables V (getInputVariables T) T)
                          maxIterations flowObj])
        \<and> fst (init JSON_parse DEBUG nodeData input options)
            \<noteq> Inl (new_Error ''Worker input variables values are not provided!'')
        \<and> (\<forall>workerDefinition.
              fst (init JSON_parse DEBUG nodeData input options) = Inr workerDefinition
              \<longrightarrow> worker_workerPrompt workerDefinition
                    = substitute_inputVariables V (getInputVariables T) T)
        \<and> ((\<forall>n \<in> set (getInputVariables T). CHR ''$'' \<notin> set (property_text V n))
            \<longrightarrow> substitute_inputVariables V (getInputVariables T) T
                  = substitute_literally V (getInputVariables T) T)
        \<and> (no_nested_braces T
             \<and> (\<forall>n \<in> set (getInputVariables T). plain_value (property_text V n))
            \<longrightarrow> (\<forall>n \<in> set (getInputVariables T).
                   \<not> includes_text (substitute_inputVariables V (getInputVariables T) T)
                       (placeholder n))))
     \<and> (\<not> set (getInputVariables T) \<subseteq> dom V \<longrightarrow>
          init JSON_parse DEBUG nodeData input options
            = (Inl (new_Error ''Worker input variables values are not provided!''), calls))"
proof (intro conjI impI)
  assume p: "set (getInputVariables T) \<subseteq> dom V"
  then have e: "every_variable_provided (getInputVariables (inputs_workerPrompt nodeData)) V"
    using assms(4) by (simp add: every_variable_provided_iff)
  show "\<exists>llm tools maxIterations flowObj.
           snd (init JSON_parse DEBUG nodeData input options)
             = calls @ [createAgent_call llm tools
                          (substitute_inputVariables V (getInputVariables T) T)
                          maxIterations flowObj]"
    using assms e by (auto simp: init_def Let_def split: sum.splits)
  show "fst (init JSON_parse DEBUG nodeData input options)
            \<noteq> Inl (new_Error ''Worker input variables values are not provided!'')"
  proof
    assume "fst (init JSON_parse DEBUG nodeData input options)
              = Inl (new_Error ''Worker input variables values are not provided!'')"
    with assms e show False
      by (auto simp: init_def Let_def new_Error_def split: sum.splits dest!: createAgent_error)
  qed
  show "\<forall>workerDefinition.
              fst (init JSON_parse DEBUG nodeData input options) = Inr workerDefinition
              \<longrightarrow> worker_workerPrompt workerDefinition
                    = substitute_inputVariables V (getInputVariables T) T"
    using assms e by (auto simp: init_def Let_def split: sum.splits)
next
  assume "\<forall>n \<in> set (getInputVariables T). CHR ''$'' \<notin> set (property_text V n)"
  then show "substitute_inputVariables V (getInputVariables T) T
                  = substitute_literally V (getInputVariables T) T"
    by (rule substitute_inputVariables_literally)
next
  assume "no_nested_braces T
             \<and> (\<forall>n \<in> set (getInputVariables T). plain_value (property_text V n))"
  then have n: "no_nested_braces T"
    and v: "\<forall>n \<in> set (getInputVariables T). brace_free n \<and> plain_value (property_text V n)"
    by (auto simp: getInputVariables_brace_free)
  have "\<forall>n \<in> {} \<union> set (getInputVariables T).
          \<not> sublist (placeholder n) (substitute_inputVariables V (getInputVariables T) T)"
    using n v by (rule substitute_inputVariables_no_placeholder) simp
  then show "\<forall>n \<in> set (getInputVariables T).
                   \<not> includes_text (substitute_inputVariables V (getInputVariables T) T)
                       (placeholder n)"
    by (simp add: includes_text_def)
next
  assume "\<not> set (getInputVariables T) \<subseteq> dom V"
  then have "\<not> every_variable_provided (getInputVariables (inputs_workerPrompt nodeData)) V"
    using assms(4) by (simp add: every_variable_provided_iff)
  then show "init JSON_parse DEBUG nodeData input options
            = (Inl (new_Error ''Worker input variables values are not provided!''), calls)"
    using assms by (simp add: init_def Let_def)
qed

lemma sample_names: "getInputVariables sample_template = [''role'', ''topic'']"
  by code_simp

theorem init_substitutes_inputVariables_witness:
  "set (getInputVariables sample_template) \<subseteq> dom sample_values
   \<and> no_nested_braces sample_template
   \<and> plain_value (property_text sample_values ''role'')
   \<and> plain_value (property_text sample_values ''topic'')
   \<and> substitute_inputVariables sample_values (getInputVariables sample_template) sample_template
        = ''You are analyst, answer about markets.''
   \<and> substitute_literally sample_values (getInputVariables sample_template) sample_template
        = ''You are analyst, answer about markets.''
   \<and> \<not> includes_text
          (substitute_inputVariables sample_values (getInputVariables sample_template) sample_template)
          (placeholder ''role'')
   \<and> \<not> includes_text
          (substitute_inputVariables sample_values (getInputVariables sample_template) sample_template)
          (placeholder ''topic'')
   \<and> \<not> set (getInputVariables sample_template) \<subseteq> dom [''role'' \<mapsto> ''analyst'']
   \<and> init sample_JSON_parse None
         (sample_nodeData\<lparr>inputs_promptValues :=
            Some (PromptValuesObject [''role'' \<mapsto> ''analyst''])\<rparr>) ''hello'' sample_options
       = (Inl (new_Error ''Worker input variables values are not provided!''), [])"
proof -
  have l: "inputs_workerName sample_nodeData = Some ''Research Assistant''"
    and e: "''Research Assistant'' \<noteq> []"
    and t: "sample_template = inputs_workerPrompt sample_nodeData"
    and r: "read_promptValues sample_JSON_parse (inputs_promptValues sample_nodeData)
              = (Inr sample_values, [])"
    by (simp_all add: sample_nodeData_def sample_template_def sample_values_def
        read_promptValues_def)
  have k: "set (getInputVariables sample_template) \<subseteq> dom sample_values"
    by (simp add: sample_names sample_values_def)
  have n: "no_nested_braces sample_template"
    by (simp add: sample_template_def)
  have v1: "plain_value (property_text sample_values ''role'')"
    and v2: "plain_value (property_text sample_values ''topic'')"
    by (simp_all add: plain_value_def property_text_def sample_values_def)
  have s: "substitute_inputVariables sample_values (getInputVariables sample_template)
             sample_template = ''You are analyst, answer about markets.''"
    by code_simp
  have dollar: "\<forall>n \<in> set (getInputVariables sample_template).
                  CHR ''$'' \<notin> set (property_text sample_values n)"
    and plain: "\<forall>n \<in> set (getInputVariables sample_template).
                  plain_value (property_text sample_values n)"
    by (simp_all add: sample_names plain_value_def property_text_def sample_values_def)
  note a = init_substitutes_inputVariables
    [OF l e r t, of None "''hello''" sample_options, THEN conjunct1, THEN mp, OF k]
  note lit = a [THEN conjunct2, THEN conjunct2, THEN conjunct2, THEN conjunct1, THEN mp,
                OF dollar]
  from lit s
  have lit': "substitute_literally sample_values (getInputVariables sample_template)
                sample_template = ''You are analyst, answer about markets.''"
    by simp
  note c = a [THEN conjunct2, THEN conjunct2, THEN conjunct2, THEN conjunct2, THEN mp,
              OF conjI [OF n plain]]
  let ?missing = "sample_nodeData\<lparr>inputs_promptValues :=
            Some (PromptValuesObject [''role'' \<mapsto> ''analyst''])\<rparr>"
  have l': "inputs_workerName ?missing = Some ''Research Assistant''"
    and t': "sample_template = inputs_workerPrompt ?missing"
    and r': "read_promptValues sample_JSON_parse (inputs_promptValues ?missing)
              = (Inr [''role'' \<mapsto> ''analyst''], [])"
    by (simp_all add: sample_nodeData_def sample_template_def read_promptValues_def)
  have m: "\<not> set (getInputVariables sample_template) \<subseteq> dom [''role'' \<mapsto> ''analyst'']"
    by (simp add: sample_names)
  note f = init_substitutes_inputVariables
    [OF l' e r' t', of None "''hello''" sample_options, THEN conjunct2, THEN mp, OF m]
  from c have c1: "\<not> includes_text
          (substitute_inputVariables sample_values (getInputVariables sample_template)
             sample_template)
          (placeholder ''role'')"
    and c2: "\<not> includes_text
          (substitute_inputVariables sample_values (getInputVariables sample_template)
             sample_template)
          (placeholder ''topic'')"
    by (simp_all add: sample_names)
  from k n v1 v2 s lit' c1 c2 m f show ?thesis
    by (intro conjI)
qed

text \<open>
  The claim as it was stated fails: a value is inserted as it is and is not scanned again,
  so a value that holds the placeholder of its own name leaves it in the prompt that is
  given to \<^verbatim>\<open>createAgent\<close>.
\<close>

theorem init_substitution_leaves_placeholder:
  "getInputVariables ''Explain {topic}.'' = [''topic'']
   \<and> [''topic'' \<mapsto> ''the {topic} syntax''] ''topic'' = Some ''the {topic} syntax''
   \<and> snd (init sample_JSON_parse None
        (sample_nodeData\<lparr>inputs_workerPrompt := ''Explain {topic}.'',
           inputs_promptValues :=
             Some (PromptValuesObject [''topic'' \<mapsto> ''the {topic} syntax''])\<rparr>)
        ''hello'' sample_options)
      = [createAgent_call sample_model [Tool ''search''] ''Explain the {topic} syntax.'' None
           sample_flowObj]
   \<and> includes_text ''Explain the {topic} syntax.'' (placeholder ''topic'')"
  by code_simp

section \<open>Reading the prompt input values\<close>

lemma read_promptValues_error:
  "read_promptValues JSON_parse promptValuesStr = (Inl thrown, calls) \<Longrightarrow>
     \<exists>str exception.
       promptValuesStr = Some (PromptValuesString str) \<and> str \<noteq> []
       \<and> JSON_parse str = Inl exception
       \<and> thrown = new_Error (''Invalid JSON in the Worker's Prompt Input Values: ''
                           @ error_toString exception)"
  by (auto simp: read_promptValues_def
      split: option.splits PromptValues.splits if_splits sum.splits)

lemma init_error_cases:
  assumes "fst (init JSON_parse DEBUG nodeData input options) = Inl thrown"
  shows "thrown = new_Error ''Worker name is required!''
         \<or> thrown = new_Error ''Worker input variables values are not provided!''
         \<or> thrown = new_Error ''This agent only compatible with function calling models.''
         \<or> thrown = new_Error ''Unclosed '{' in template.''
         \<or> thrown = new_Error ''Single '}' in template.''
         \<or> (\<exists>str exception.
               inputs_promptValues nodeData = Some (PromptValuesString str) \<and> str \<noteq> []
               \<and> JSON_parse str = Inl exception
               \<and> thrown = new_Error (''Invalid JSON in the Worker's Prompt Input Values: ''
                                   @ error_toString exception))"
proof (cases "inputs_workerName nodeData")
  case None
  with assms show ?thesis by (simp add: init_def Let_def)
next
  case (Some workerLabel)
  show ?thesis
  proof (cases "workerLabel = []")
    case True
    with Some assms show ?thesis by (simp add: init_def Let_def)
  next
    case False
    obtain outcome calls
      where r: "read_promptValues JSON_parse (inputs_promptValues nodeData) = (outcome, calls)"
      by (cases "read_promptValues JSON_parse (inputs_promptValues nodeData)")
    show ?thesis
    proof (cases outcome)
      case (Inl e)
      with Some False r assms have "thrown = e" by (simp add: init_def Let_def)
      with read_promptValues_error [of JSON_parse "inputs_promptValues nodeData" e calls] r Inl
      show ?thesis by blast
    next
      case (Inr V)
      with Some False r assms show ?thesis
        by (auto simp: init_def Let_def split: if_splits sum.splits dest!: createAgent_error)
    qed
  qed
qed

lemma init_object_not_parsed:
  assumes o: "inputs_promptValues nodeData = Some (PromptValuesObject obj)"
  shows "init JSON_parse DEBUG nodeData input options
          = init other_parse DEBUG nodeData input options"
proof -
  have "read_promptValues JSON_parse (inputs_promptValues nodeData)
          = read_promptValues other_parse (inputs_promptValues nodeData)"
    by (simp add: o read_promptValues_def)
  then show ?thesis
    by (simp add: init_def Let_def split: option.split)
qed

lemma init_invalid_JSON:
  assumes "inputs_promptValues nodeData = Some (PromptValuesString str)" "str \<noteq> []"
        "JSON_parse str = Inl exception"
        "inputs_workerName nodeData = Some workerLabel" "workerLabel \<noteq> []"
  shows "init JSON_parse DEBUG nodeData input options
         = (Inl (new_Error (''Invalid JSON in the Worker's Prompt Input Values: ''
                            @ error_toString exception)),
            [JSON_parse_call str])"
proof -
  have "read_promptValues JSON_parse (inputs_promptValues nodeData)
          = (Inl (new_Error (''Invalid JSON in the Worker's Prompt Input Values: ''
                            @ error_toString exception)),
            [JSON_parse_call str])"
    using assms(1-3) by (simp add: read_promptValues_def)
  with assms(4,5) show ?thesis
    by (simp add: init_def Let_def)
qed

lemma init_no_JSON_parse_call:
  assumes "read_promptValues JSON_parse (inputs_promptValues nodeData) = (outcome, [])"
  shows "\<not> list_ex is_JSON_parse_call (snd (init JSON_parse DEBUG nodeData input options))"
  using assms
  by (cases outcome) (auto simp: init_def Let_def split: option.splits sum.splits)

lemma init_invalid_JSON_only_from_string:
  assumes "fst (init JSON_parse DEBUG nodeData input options)
         = Inl (new_Error (''Invalid JSON in the Worker's Prompt Input Values: '' @ text))"
  shows "\<exists>str exception.
          inputs_promptValues nodeData = Some (PromptValuesString str) \<and> str \<noteq> []
          \<and> JSON_parse str = Inl exception \<and> text = error_toString exception"
proof -
  let ?e = "new_Error (''Invalid JSON in the Worker's Prompt Input Values: '' @ text)"
  have a: "?e \<noteq> new_Error ''Worker name is required!''"
    and b: "?e \<noteq> new_Error ''Worker input variables values are not provided!''"
    and c: "?e \<noteq> new_Error ''This agent only compatible with function calling models.''"
    and d: "?e \<noteq> new_Error ''Unclosed '{' in template.''"
    and f: "?e \<noteq> new_Error ''Single '}' in template.''"
    by (simp_all add: new_Error_def)
  from init_error_cases [OF assms] a b c d f
  obtain str exception where
    s: "inputs_promptValues nodeData = Some (PromptValuesString str)" "str \<noteq> []"
       "JSON_parse str = Inl exception"
    and e: "?e = new_Error (''Invalid JSON in the Worker's Prompt Input Values: ''
                                   @ error_toString exception)"
    by blast
  from e have "text = error_toString exception"
    by (simp add: new_Error_def)
  with s show ?thesis by blast
qed

text \<open>
  C9 (as amended). When \<^verbatim>\<open>promptValues\<close> is an object, \<^verbatim>\<open>init\<close> takes it as the values,
  makes no call of \<^verbatim>\<open>JSON.parse\<close> and does not depend on what \<^verbatim>\<open>JSON.parse\<close> would
  do. The error \<^verbatim>\<open>Invalid JSON in the Worker's Prompt Input Values\<close> is thrown only for a
  string that is not empty and that \<^verbatim>\<open>JSON.parse\<close> rejects, and its message ends with the
  text of the exception. For every such string, when the worker name is present and not
  empty, \<^verbatim>\<open>init\<close> throws that error. The empty string is not parsed.
\<close>

theorem init_promptValues_parsing:
  "(inputs_promptValues nodeData = Some (PromptValuesObject obj) \<longrightarrow>
      read_promptValues JSON_parse (inputs_promptValues nodeData) = (Inr obj, [])
      \<and> \<not> list_ex is_JSON_parse_call (snd (init JSON_parse DEBUG nodeData input options))
      \<and> init JSON_parse DEBUG nodeData input options
          = init other_parse DEBUG nodeData input options)
   \<and> (fst (init JSON_parse DEBUG nodeData input options)
         = Inl (new_Error (''Invalid JSON in the Worker's Prompt Input Values: '' @ text)) \<longrightarrow>
       (\<exists>str exception.
          inputs_promptValues nodeData = Some (PromptValuesString str) \<and> str \<noteq> []
          \<and> JSON_parse str = Inl exception \<and> text = error_toString exception))
   \<and> (inputs_promptValues nodeData = Some (PromptValuesString str) \<and> str \<noteq> []
        \<and> JSON_parse str = Inl exception
        \<and> inputs_workerName nodeData = Some workerLabel \<and> workerLabel \<noteq> [] \<longrightarrow>
       init JSON_parse DEBUG nodeData input options
         = (Inl (new_Error (''Invalid JSON in the Worker's Prompt Input Values: ''
                            @ error_toString exception)),
            [JSON_parse_call str]))
   \<and> (inputs_promptValues nodeData = Some (PromptValuesString []) \<longrightarrow>
       \<not> list_ex is_JSON_parse_call (snd (init JSON_parse DEBUG nodeData input options)))"
proof (intro conjI impI)
  assume o: "inputs_promptValues nodeData = Some (PromptValuesObject obj)"
  then show r: "read_promptValues JSON_parse (inputs_promptValues nodeData) = (Inr obj, [])"
    by (simp add: read_promptValues_def)
  then show "\<not> list_ex is_JSON_parse_call (snd (init JSON_parse DEBUG nodeData input options))"
    by (rule init_no_JSON_parse_call)
  from o show "init JSON_parse DEBUG nodeData input options
          = init other_parse DEBUG nodeData input options"
    by (rule init_object_not_parsed)
next
  assume "fst (init JSON_parse DEBUG nodeData input options)
         = Inl (new_Error (''Invalid JSON in the Worker's Prompt Input Values: '' @ text))"
  then show "\<exists>str exception.
          inputs_promptValues nodeData = Some (PromptValuesString str) \<and> str \<noteq> []
          \<and> JSON_parse str = Inl exception \<and> text = error_toString exception"
    by (rule init_invalid_JSON_only_from_string)
next
  assume "inputs_promptValues nodeData = Some (PromptValuesString str) \<and> str \<noteq> []
        \<and> JSON_parse str = Inl exception
        \<and> inputs_workerName nodeData = Some workerLabel \<and> workerLabel \<noteq> []"
  then show "init JSON_parse DEBUG nodeData input options
         = (Inl (new_Error (''Invalid JSON in the Worker's Prompt Input Values: ''
                            @ error_toString exception)),
            [JSON_parse_call str])"
    by (simp add: init_invalid_JSON)
next
  assume "inputs_promptValues nodeData = Some (PromptValuesString [])"
  then have "read_promptValues JSON_parse (inputs_promptValues nodeData) = (Inr Map.empty, [])"
    by (simp add: read_promptValues_def)
  then show "\<not> list_ex is_JSON_parse_call (snd (init JSON_parse DEBUG nodeData input options))"
    by (rule init_no_JSON_parse_call)
qed

theorem init_promptValues_parsing_witness:
  "inputs_promptValues sample_nodeData = Some (PromptValuesObject sample_values)
   \<and> \<not> list_ex is_JSON_parse_call
         (snd (init sample_JSON_parse None sample_nodeData ''hello'' sample_options))
   \<and> sample_JSON_parse ''{'' = Inl (JSError ''SyntaxError'' ''Unexpected end of JSON input'')
   \<and> init sample_JSON_parse None
        (sample_nodeData\<lparr>inputs_promptValues := Some (PromptValuesString ''{'')\<rparr>)
        ''hello'' sample_options
      = (Inl (new_Error (''Invalid JSON in the Worker's Prompt Input Values: ''
                         @ ''SyntaxError: Unexpected end of JSON input'')),
         [JSON_parse_call ''{''])"
proof -
  have o: "inputs_promptValues sample_nodeData = Some (PromptValuesObject sample_values)"
    by (simp add: sample_nodeData_def sample_values_def)
  from init_promptValues_parsing
    [of sample_nodeData sample_values sample_JSON_parse None "''hello''" sample_options] o
  have a: "\<not> list_ex is_JSON_parse_call
         (snd (init sample_JSON_parse None sample_nodeData ''hello'' sample_options))"
    by blast
  let ?broken = "sample_nodeData\<lparr>inputs_promptValues := Some (PromptValuesString ''{'')\<rparr>"
  have p: "sample_JSON_parse ''{'' = Inl (JSError ''SyntaxError'' ''Unexpected end of JSON input'')"
    by (simp add: sample_JSON_parse_def)
  have h: "inputs_promptValues ?broken = Some (PromptValuesString ''{'') \<and> ''{'' \<noteq> []
        \<and> sample_JSON_parse ''{'' = Inl (JSError ''SyntaxError'' ''Unexpected end of JSON input'')
        \<and> inputs_workerName ?broken = Some ''Research Assistant'' \<and> ''Research Assistant'' \<noteq> []"
    by (simp add: sample_nodeData_def sample_JSON_parse_def)
  note third = init_promptValues_parsing
    [where nodeData = ?broken and JSON_parse = sample_JSON_parse and DEBUG = None
       and input = "''hello''" and options = sample_options and str = "''{''"
       and exception = "JSError ''SyntaxError'' ''Unexpected end of JSON input''"
       and workerLabel = "''Research Assistant''",
     THEN conjunct2, THEN conjunct2, THEN conjunct1, THEN mp, OF h]
  have t: "error_toString (JSError ''SyntaxError'' ''Unexpected end of JSON input'')
             = ''SyntaxError: Unexpected end of JSON input''"
    by (simp add: error_toString_def)
  from third have b: "init sample_JSON_parse None ?broken ''hello'' sample_options
      = (Inl (new_Error (''Invalid JSON in the Worker's Prompt Input Values: ''
                         @ ''SyntaxError: Unexpected end of JSON input'')),
         [JSON_parse_call ''{''])"
    by (simp only: t)
  from o a p b show ?thesis by simp
qed

text \<open>
  The claim as it was stated fails for the empty string: \<^verbatim>\<open>JSON.parse\<close> rejects it, but
  \<^verbatim>\<open>init\<close> tests \<^verbatim>\<open>if (promptValuesStr)\<close> first, does not parse it and constructs the
  worker.
\<close>

theorem init_skips_empty_promptValues:
  "sample_JSON_parse [] = Inl (JSError ''SyntaxError'' ''Unexpected end of JSON input'')
   \<and> init sample_JSON_parse None
        (sample_nodeData\<lparr>inputs_workerPrompt := ''You are a researcher.'',
           inputs_promptValues := Some (PromptValuesString [])\<rparr>)
        ''hello'' sample_options
      = (Inr (sample_workerDefinition
               \<lparr>worker_node := WorkerNode
                   (AgentExecutor
                     [AssignAgentScratchpad,
                      PromptStep (ChatPromptTemplate_fromMessages
                        [SystemMessage (combinedPrompt ''You are a researcher.''),
                         MessagesPlaceholder ''messages'',
                         MessagesPlaceholder ''agent_scratchpad'']),
                      ModelWithTools sample_model [Tool ''search''],
                      ToolCallingAgentOutputParser]
                     [Tool ''search''] None None (Some ''hello'') False None)
                   ''research_assistant'',
                 worker_workerPrompt := ''You are a researcher.'',
                 worker_workerInputVariables := []\<rparr>),
         [createAgent_call sample_model [Tool ''search''] ''You are a researcher.'' None
            sample_flowObj])"
proof (rule conjI)
  show "sample_JSON_parse [] = Inl (JSError ''SyntaxError'' ''Unexpected end of JSON input'')"
    by (simp add: sample_JSON_parse_def)
qed code_simp

end
